theory Spec2Isabelle
  imports Complex_Main
begin

section \<open>JavaScript numbers\<close>

text \<open>
  A JavaScript \<^verbatim>\<open>number\<close> is an IEEE 754 binary64 value: a finite value, \<^verbatim>\<open>Infinity\<close>,
  \<^verbatim>\<open>-Infinity\<close> or \<^verbatim>\<open>NaN\<close>. A finite value is modelled by the real it denotes. The result
  of an arithmetic operation on finite values is the exact real result rounded to the nearest
  binary64 value, ties to the even significand, and an infinity when the rounded magnitude
  reaches \<open>2\<^sup>1\<^sup>0\<^sup>2\<^sup>4\<close>. The special values follow IEEE 754 (division by zero, \<^verbatim>\<open>0/0\<close>,
  comparisons with \<^verbatim>\<open>NaN\<close>, \<^verbatim>\<open>Math.max\<close> and \<^verbatim>\<open>Math.min\<close> returning \<^verbatim>\<open>NaN\<close> when an argument
  is \<^verbatim>\<open>NaN\<close>). The sign of zero is not modelled. \<^verbatim>\<open>Math.sqrt\<close> is correctly rounded, as
  IEEE 754 requires; \<^verbatim>\<open>Math.log\<close> and \<^verbatim>\<open>Math.pow\<close> are taken as correctly rounded too, where
  ECMAScript leaves the last bit to the implementation.
\<close>

datatype number = Fin real | PInf | NInf | NaN

text \<open>
  The finite binary64 values: a significand of at most 53 bits times a power of two, from
  the subnormal exponent \<open>-1074\<close> to the greatest exponent \<open>971\<close>.
\<close>

definition binary64 :: "real set" where
  "binary64 =
     (\<lambda>(m, e). real_of_int m * 2 powi e) ` ({- (2 ^ 53 - 1) .. 2 ^ 53 - 1} \<times> {- 1074 .. 971})"

text \<open>
  Rounding to nearest: the two neighbours of \<open>x\<close> among the binary64 values, with
  \<open>2\<^sup>1\<^sup>0\<^sup>2\<^sup>4\<close> and its negative standing for the values that overflow; the nearer one,
  and at a tie the one whose significand is even.
\<close>

definition grid :: "real set" where
  "grid = binary64 \<union> {2 ^ 1024, - (2 ^ 1024)}"

definition round_down :: "real \<Rightarrow> real" where
  "round_down x = Max {d \<in> grid. d \<le> x}"

definition round_up :: "real \<Rightarrow> real" where
  "round_up x = Min {d \<in> grid. x \<le> d}"

definition nearest :: "real \<Rightarrow> real" where
  "nearest x =
     (let lo = round_down x; hi = round_up x
      in if x - lo < hi - x then lo
         else if hi - x < x - lo then hi
         else if lo = hi then lo
         else if even \<lfloor>lo / (hi - lo)\<rfloor> then lo else hi)"

definition fl :: "real \<Rightarrow> number" where
  "fl x =
     (if 2 ^ 1024 \<le> x then PInf
      else if x \<le> - (2 ^ 1024) then NInf
      else let n = nearest x
           in if n = 2 ^ 1024 then PInf else if n = - (2 ^ 1024) then NInf else Fin n)"

fun num_add :: "number \<Rightarrow> number \<Rightarrow> number" where
  "num_add (Fin a) (Fin b) = fl (a + b)"
| "num_add NaN _ = NaN"
| "num_add _ NaN = NaN"
| "num_add PInf NInf = NaN"
| "num_add NInf PInf = NaN"
| "num_add PInf _ = PInf"
| "num_add _ PInf = PInf"
| "num_add NInf _ = NInf"
| "num_add _ NInf = NInf"

fun num_neg :: "number \<Rightarrow> number" where
  "num_neg (Fin a) = Fin (- a)"
| "num_neg PInf = NInf"
| "num_neg NInf = PInf"
| "num_neg NaN = NaN"

definition num_sub :: "number \<Rightarrow> number \<Rightarrow> number" where
  "num_sub x y = num_add x (num_neg y)"

fun num_mul :: "number \<Rightarrow> number \<Rightarrow> number" where
  "num_mul (Fin a) (Fin b) = fl (a * b)"
| "num_mul NaN _ = NaN"
| "num_mul _ NaN = NaN"
| "num_mul (Fin a) PInf = (if a = 0 then NaN else if 0 < a then PInf else NInf)"
| "num_mul (Fin a) NInf = (if a = 0 then NaN else if 0 < a then NInf else PInf)"
| "num_mul PInf (Fin b) = (if b = 0 then NaN else if 0 < b then PInf else NInf)"
| "num_mul NInf (Fin b) = (if b = 0 then NaN else if 0 < b then NInf else PInf)"
| "num_mul PInf PInf = PInf"
| "num_mul PInf NInf = NInf"
| "num_mul NInf PInf = NInf"
| "num_mul NInf NInf = PInf"

fun num_div :: "number \<Rightarrow> number \<Rightarrow> number" where
  "num_div (Fin a) (Fin b) =
     (if b \<noteq> 0 then fl (a / b)
      else if a = 0 then NaN else if 0 < a then PInf else NInf)"
| "num_div NaN _ = NaN"
| "num_div _ NaN = NaN"
| "num_div (Fin a) PInf = Fin 0"
| "num_div (Fin a) NInf = Fin 0"
| "num_div PInf (Fin b) = (if 0 \<le> b then PInf else NInf)"
| "num_div NInf (Fin b) = (if 0 \<le> b then NInf else PInf)"
| "num_div PInf PInf = NaN"
| "num_div PInf NInf = NaN"
| "num_div NInf PInf = NaN"
| "num_div NInf NInf = NaN"

text \<open>\<^verbatim>\<open>Math.sqrt\<close>, \<^verbatim>\<open>Math.log\<close>, \<^verbatim>\<open>Math.abs\<close>, and \<^verbatim>\<open>Math.pow\<close> at a natural exponent.\<close>

fun num_sqrt :: "number \<Rightarrow> number" where
  "num_sqrt (Fin a) = (if 0 \<le> a then fl (sqrt a) else NaN)"
| "num_sqrt PInf = PInf"
| "num_sqrt NInf = NaN"
| "num_sqrt NaN = NaN"

fun num_log :: "number \<Rightarrow> number" where
  "num_log (Fin a) = (if 0 < a then fl (ln a) else if a = 0 then NInf else NaN)"
| "num_log PInf = PInf"
| "num_log NInf = NaN"
| "num_log NaN = NaN"

fun num_abs :: "number \<Rightarrow> number" where
  "num_abs (Fin a) = Fin \<bar>a\<bar>"
| "num_abs PInf = PInf"
| "num_abs NInf = PInf"
| "num_abs NaN = NaN"

fun num_pow :: "number \<Rightarrow> nat \<Rightarrow> number" where
  "num_pow (Fin a) n = fl (a ^ n)"
| "num_pow PInf n = (if n = 0 then Fin 1 else PInf)"
| "num_pow NInf n = (if n = 0 then Fin 1 else if even n then PInf else NInf)"
| "num_pow NaN n = (if n = 0 then Fin 1 else NaN)"

text \<open>Comparisons: every comparison with \<^verbatim>\<open>NaN\<close> is false, also \<^verbatim>\<open>NaN === NaN\<close>.\<close>

fun num_lt :: "number \<Rightarrow> number \<Rightarrow> bool" where
  "num_lt (Fin a) (Fin b) = (a < b)"
| "num_lt NaN _ = False"
| "num_lt _ NaN = False"
| "num_lt _ NInf = False"
| "num_lt NInf _ = True"
| "num_lt PInf _ = False"
| "num_lt _ PInf = True"

fun num_eq :: "number \<Rightarrow> number \<Rightarrow> bool" where
  "num_eq (Fin a) (Fin b) = (a = b)"
| "num_eq PInf PInf = True"
| "num_eq NInf NInf = True"
| "num_eq _ _ = False"

definition num_le :: "number \<Rightarrow> number \<Rightarrow> bool" where
  "num_le x y = (num_lt x y \<or> num_eq x y)"

definition num_ge :: "number \<Rightarrow> number \<Rightarrow> bool" where
  "num_ge x y = num_le y x"

fun num_isNaN :: "number \<Rightarrow> bool" where
  "num_isNaN NaN = True"
| "num_isNaN _ = False"

definition num_max :: "number \<Rightarrow> number \<Rightarrow> number" where
  "num_max x y = (if num_isNaN x \<or> num_isNaN y then NaN else if num_lt x y then y else x)"

definition num_min :: "number \<Rightarrow> number \<Rightarrow> number" where
  "num_min x y = (if num_isNaN x \<or> num_isNaN y then NaN else if num_lt y x then y else x)"

text \<open>\<^verbatim>\<open>Number.isFinite\<close>.\<close>

fun isFinite :: "number \<Rightarrow> bool" where
  "isFinite (Fin a) = True"
| "isFinite _ = False"

text \<open>The length of an array, as a number: an integer below \<open>2\<^sup>3\<^sup>2\<close>, hence exact.\<close>

definition len :: "'a list \<Rightarrow> number" where
  "len xs = Fin (real (length xs))"

text \<open>
  \<^verbatim>\<open>Array.prototype.slice(start, end)\<close>: a negative index counts from the end of the
  array, and both indices are clipped to the array.
\<close>

definition slice_index :: "nat \<Rightarrow> int \<Rightarrow> nat" where
  "slice_index n k = (if k < 0 then nat (max (int n + k) 0) else min (nat k) n)"

definition slice :: "'a list \<Rightarrow> int \<Rightarrow> int \<Rightarrow> 'a list" where
  "slice xs s e =
     (let from = slice_index (length xs) s; upto = slice_index (length xs) e
      in take (upto - from) (drop from xs))"

section \<open>Errors\<close>

text \<open>
  Every \<^verbatim>\<open>throw new Error(...)\<close> of the two calculators is one constructor, named after
  its message.
\<close>

datatype error =
    NeedTwoPricePointsForReturns
  | PricesMustBePositive
  | MeanOfEmptyArray
  | NeedTwoValuesForVariance
  | PeriodsPerYearMustBePositive
  | NeedTwoPricePoints
  | PriceDataEmpty
  | NeedTwoPricePointsForDVOL
  | MethodRequiresDataPoints
  | PricesMustBePositiveFinite
  | InsufficientDataForWindow
  | LambdaOutOfRange
  | NeedTwoReturnsForEWMA
  | InvalidGARCHParameters
  | NeedTenReturnsForGARCH

text \<open>The three kinds of error of the specification, and the kind of each message.\<close>

datatype error_kind = InsufficientData | InvalidPrice | InvalidParameter

fun kind :: "error \<Rightarrow> error_kind" where
  "kind NeedTwoPricePointsForReturns = InsufficientData"
| "kind PricesMustBePositive = InvalidPrice"
| "kind MeanOfEmptyArray = InsufficientData"
| "kind NeedTwoValuesForVariance = InsufficientData"
| "kind PeriodsPerYearMustBePositive = InvalidParameter"
| "kind NeedTwoPricePoints = InsufficientData"
| "kind PriceDataEmpty = InsufficientData"
| "kind NeedTwoPricePointsForDVOL = InsufficientData"
| "kind MethodRequiresDataPoints = InsufficientData"
| "kind PricesMustBePositiveFinite = InvalidPrice"
| "kind InsufficientDataForWindow = InsufficientData"
| "kind LambdaOutOfRange = InvalidParameter"
| "kind NeedTwoReturnsForEWMA = InsufficientData"
| "kind InvalidGARCHParameters = InvalidParameter"
| "kind NeedTenReturnsForGARCH = InsufficientData"

section \<open>Data\<close>

record PriceData =
  timestamp :: number
  price :: number

record VolatilityMetrics =
  volatility :: number
  variance :: number
  annualizedVolatility :: number

datatype DVOLMethod = Simple | Ewma | Garch

record GARCHParams =
  omega :: number
  alpha :: number
  beta :: number

text \<open>An option that the caller leaves out is \<open>None\<close>.\<close>

record DVOLOptions =
  windowSize :: "int option"
  ewmaLambda :: "number option"
  garchParams :: "GARCHParams option"
  annualizationFactor :: "number option"

text \<open>The field \<^verbatim>\<open>method\<close> of the result is \<open>dvolMethod\<close> here.\<close>

record DVOLResult =
  dvol :: number
  dvolIndex :: number
  confidence :: number
  dvolMethod :: DVOLMethod
  dataPoints :: nat
  calculatedAt :: number

record Diagnostics =
  autocorrelation :: number
  heteroskedasticity :: number
  skewness :: number
  kurtosis :: number

section \<open>VolatilityCalculator\<close>

text \<open>The loop of \<^verbatim>\<open>calculateLogReturns\<close>, from index \<open>i\<close> with the returns pushed so far.\<close>

function logReturns_loop :: "number list \<Rightarrow> nat \<Rightarrow> number list \<Rightarrow> error + number list" where
  "logReturns_loop prices i returns =
     (if i < length prices then
        (if num_le (prices ! (i - 1)) (Fin 0) \<or> num_le (prices ! i) (Fin 0)
         then Inl PricesMustBePositive
         else logReturns_loop prices (i + 1)
                (returns @ [num_log (num_div (prices ! i) (prices ! (i - 1)))]))
      else Inr returns)"
  by pat_completeness auto
termination
  by (relation "measure (\<lambda>(prices, i, returns). length prices - i)") auto

definition calculateLogReturns :: "number list \<Rightarrow> error + number list" where
  "calculateLogReturns prices =
     (if length prices < 2 then Inl NeedTwoPricePointsForReturns
      else logReturns_loop prices 1 [])"

text \<open>\<^verbatim>\<open>values.reduce((sum, value) => sum + value, 0)\<close>.\<close>

definition reduce_sum :: "number list \<Rightarrow> number" where
  "reduce_sum values = foldl num_add (Fin 0) values"

definition calculateMean :: "number list \<Rightarrow> error + number" where
  "calculateMean values =
     (if length values = 0 then Inl MeanOfEmptyArray
      else Inr (num_div (reduce_sum values) (len values)))"

definition calculateVariance :: "number list \<Rightarrow> error + number" where
  "calculateVariance values =
     (if length values < 2 then Inl NeedTwoValuesForVariance
      else case calculateMean values of
        Inl e \<Rightarrow> Inl e
      | Inr mean \<Rightarrow>
          let squaredDifferences = map (\<lambda>value. num_pow (num_sub value mean) 2) values
          in Inr (num_div (reduce_sum squaredDifferences)
                    (num_sub (len values) (Fin 1))))"

definition calculateStandardDeviation :: "number list \<Rightarrow> error + number" where
  "calculateStandardDeviation values =
     (case calculateVariance values of Inl e \<Rightarrow> Inl e | Inr v \<Rightarrow> Inr (num_sqrt v))"

definition annualizeVolatility :: "number \<Rightarrow> number \<Rightarrow> error + number" where
  "annualizeVolatility vol periodsPerYear =
     (if num_le periodsPerYear (Fin 0) then Inl PeriodsPerYearMustBePositive
      else Inr (num_mul vol (num_sqrt periodsPerYear)))"

definition getPeriodsPerYear :: "string \<Rightarrow> number \<Rightarrow> number" where
  "getPeriodsPerYear period nPoints =
     (if period = ''1d'' then Fin (365 * 24)
      else if period = ''30d'' then Fin 365
      else if period = ''365d'' then Fin 365
      else num_min (Fin 365) (num_mul nPoints (Fin 12)))"

definition calculateMetrics :: "PriceData list \<Rightarrow> string \<Rightarrow> error + VolatilityMetrics" where
  "calculateMetrics priceData period =
     (if length priceData < 2 then Inl NeedTwoPricePoints
      else case calculateLogReturns (map price priceData) of
        Inl e \<Rightarrow> Inl e
      | Inr logReturns \<Rightarrow>
         (case calculateVariance logReturns of
            Inl e \<Rightarrow> Inl e
          | Inr var \<Rightarrow>
             let vol = num_sqrt var;
                 periodsPerYear = getPeriodsPerYear period (len logReturns)
             in (case annualizeVolatility vol periodsPerYear of
                   Inl e \<Rightarrow> Inl e
                 | Inr annualized \<Rightarrow>
                     Inr \<lparr> volatility = num_mul vol (Fin 100),
                           variance = num_mul var (Fin 10000),
                           annualizedVolatility = num_mul annualized (Fin 100) \<rparr>)))"

section \<open>DVOLCalculator\<close>

text \<open>The decimal literals of the source denote the binary64 values nearest to them.\<close>

definition DEFAULT_WINDOW_SIZE :: int where
  "DEFAULT_WINDOW_SIZE = 30"

definition DEFAULT_EWMA_LAMBDA :: number where
  "DEFAULT_EWMA_LAMBDA = fl (94 / 100)"

definition DEFAULT_GARCH_PARAMS :: GARCHParams where
  "DEFAULT_GARCH_PARAMS =
     \<lparr> omega = fl (1 / 1000000), alpha = fl (1 / 10), beta = fl (85 / 100) \<rparr>"

definition ANNUALIZATION_FACTOR :: number where
  "ANNUALIZATION_FACTOR = Fin 365"

text \<open>\<^verbatim>\<open>validateInput\<close>: \<open>None\<close> when the input passes, the error thrown otherwise.\<close>

definition validateInput :: "PriceData list \<Rightarrow> DVOLMethod \<Rightarrow> error option" where
  "validateInput priceData m =
     (if length priceData = 0 then Some PriceDataEmpty
      else if length priceData < 2 then Some NeedTwoPricePointsForDVOL
      else
        let minDataPoints = (if m = Garch then 10 else if m = Ewma then 5 else 2) in
        if length priceData < minDataPoints then Some MethodRequiresDataPoints
        else
          let invalidPrices =
                filter (\<lambda>d. \<not> isFinite (price d) \<or> num_le (price d) (Fin 0)) priceData
          in if length invalidPrices > 0 then Some PricesMustBePositiveFinite else None)"

text \<open>
  The rolling-window loop of \<^verbatim>\<open>calculateSimpleDVOL\<close>, from window end index \<open>i\<close> with the
  volatilities pushed so far. The window size is an integer, as the loop counter is.
\<close>

function simple_loop :: "number list \<Rightarrow> int \<Rightarrow> int \<Rightarrow> number list \<Rightarrow> error + number list" where
  "simple_loop logReturns ws i vols =
     (if i < int (length logReturns) then
        (case calculateVariance (slice logReturns (i - ws + 1) (i + 1)) of
           Inl e \<Rightarrow> Inl e
         | Inr var \<Rightarrow> simple_loop logReturns ws (i + 1) (vols @ [num_sqrt var]))
      else Inr vols)"
  by pat_completeness auto
termination
  by (relation "measure (\<lambda>(logReturns, ws, i, vols). nat (int (length logReturns) - i))") auto

definition clamp100 :: "number \<Rightarrow> number" where
  "clamp100 x = num_max (Fin 0) (num_min (Fin 100) x)"

definition calculateSimpleDVOL ::
  "PriceData list \<Rightarrow> int \<Rightarrow> number \<Rightarrow> error + (number \<times> number)" where
  "calculateSimpleDVOL priceData ws af =
     (case calculateLogReturns (map price priceData) of
        Inl e \<Rightarrow> Inl e
      | Inr logReturns \<Rightarrow>
          if int (length logReturns) < ws then Inl InsufficientDataForWindow
          else case simple_loop logReturns ws (ws - 1) [] of
            Inl e \<Rightarrow> Inl e
          | Inr vols \<Rightarrow>
             (case calculateMean vols of
                Inl e \<Rightarrow> Inl e
              | Inr mean \<Rightarrow>
                 let d = num_mul (num_mul mean (num_sqrt af)) (Fin 100) in
                 (case calculateStandardDeviation vols of
                    Inl e \<Rightarrow> Inl e
                  | Inr volatilityStd \<Rightarrow>
                     (case calculateMean vols of
                        Inl e \<Rightarrow> Inl e
                      | Inr mean2 \<Rightarrow>
                          Inr (d, clamp100 (num_sub (Fin 100)
                                   (num_mul (num_div volatilityStd mean2) (Fin 100))))))))"

text \<open>\<^verbatim>\<open>calculateStability\<close>.\<close>

definition calculateStability :: "number list \<Rightarrow> error + number" where
  "calculateStability vars =
     (if length vars < 2 then Inr (Fin 50)
      else case calculateMean vars of
        Inl e \<Rightarrow> Inl e
      | Inr mean \<Rightarrow>
         (case calculateStandardDeviation vars of
            Inl e \<Rightarrow> Inl e
          | Inr std \<Rightarrow>
              let coefficientOfVariation = num_div std mean
              in Inr (clamp100 (num_sub (Fin 100) (num_mul coefficientOfVariation (Fin 100))))))"

text \<open>
  The loop of \<^verbatim>\<open>calculateEWMADVOL\<close>, from index \<open>i\<close>: the running variance and the array of
  variances pushed so far; it returns both.
\<close>

function ewma_loop ::
  "number \<Rightarrow> number list \<Rightarrow> nat \<Rightarrow> number \<Rightarrow> number list \<Rightarrow> number \<times> number list" where
  "ewma_loop lam logReturns i ewmaVariance vars =
     (if i < length logReturns then
        (let v = num_add (num_mul lam ewmaVariance)
                   (num_mul (num_sub (Fin 1) lam) (num_pow (logReturns ! i) 2))
         in ewma_loop lam logReturns (i + 1) v (vars @ [v]))
      else (ewmaVariance, vars))"
  by pat_completeness auto
termination
  by (relation "measure (\<lambda>(lam, logReturns, i, v, vars). length logReturns - i)") auto

definition ewma_variances :: "number \<Rightarrow> number list \<Rightarrow> number \<times> number list" where
  "ewma_variances lam logReturns =
     (let ewmaVariance = num_pow (logReturns ! 0) 2
      in ewma_loop lam logReturns 1 ewmaVariance [ewmaVariance])"

definition calculateEWMADVOL ::
  "PriceData list \<Rightarrow> number \<Rightarrow> number \<Rightarrow> error + (number \<times> number)" where
  "calculateEWMADVOL priceData lam af =
     (if num_le lam (Fin 0) \<or> num_ge lam (Fin 1) then Inl LambdaOutOfRange
      else case calculateLogReturns (map price priceData) of
        Inl e \<Rightarrow> Inl e
      | Inr logReturns \<Rightarrow>
          if length logReturns < 2 then Inl NeedTwoReturnsForEWMA
          else
            let (ewmaVariance, vars) = ewma_variances lam logReturns;
                d = num_mul (num_sqrt (num_mul ewmaVariance af)) (Fin 100);
                recentVariances = slice vars (- int (min 10 (length vars))) (int (length vars))
            in (case calculateStability recentVariances of
                  Inl e \<Rightarrow> Inl e
                | Inr varianceStability \<Rightarrow> Inr (d, clamp100 varianceStability)))"

text \<open>
  The loop of \<^verbatim>\<open>calculateGARCHDVOL\<close>, from index \<open>i\<close>: the running conditional variance,
  the variances and the standardized residuals pushed so far; it returns the three.
\<close>

function garch_loop ::
  "GARCHParams \<Rightarrow> number list \<Rightarrow> nat \<Rightarrow> number \<Rightarrow> number list \<Rightarrow> number list
     \<Rightarrow> number \<times> number list \<times> number list" where
  "garch_loop params logReturns i var vars residuals =
     (if i < length logReturns then
        (let previousReturn = logReturns ! (i - 1);
             previousVariance = var;
             v = num_add (num_add (omega params) (num_mul (alpha params) (num_pow previousReturn 2)))
                   (num_mul (beta params) previousVariance);
             standardizedResidual = num_div (logReturns ! i) (num_sqrt v)
         in garch_loop params logReturns (i + 1) v (vars @ [v])
              (residuals @ [standardizedResidual]))
      else (var, vars, residuals))"
  by pat_completeness auto
termination
  by (relation "measure (\<lambda>(params, logReturns, i, var, vars, residuals). length logReturns - i)")
    auto

definition calculateGARCHConfidence :: "number list \<Rightarrow> number list \<Rightarrow> error + number" where
  "calculateGARCHConfidence standardizedResiduals vars =
     (if length standardizedResiduals = 0 then Inr (Fin 50)
      else case calculateMean standardizedResiduals of
        Inl e \<Rightarrow> Inl e
      | Inr residualMean \<Rightarrow>
         (case calculateStandardDeviation standardizedResiduals of
            Inl e \<Rightarrow> Inl e
          | Inr residualStd \<Rightarrow>
              let meanDeviation = num_abs residualMean;
                  stdDeviation = num_abs (num_sub residualStd (Fin 1));
                  qualityScore = num_max (Fin 0)
                    (num_sub (Fin 100) (num_mul (num_add meanDeviation stdDeviation) (Fin 50)))
              in (case calculateStability vars of
                    Inl e \<Rightarrow> Inl e
                  | Inr varianceStability \<Rightarrow>
                      Inr (num_div (num_add qualityScore varianceStability) (Fin 2)))))"

definition calculateGARCHDVOL ::
  "PriceData list \<Rightarrow> GARCHParams \<Rightarrow> number \<Rightarrow> error + (number \<times> number)" where
  "calculateGARCHDVOL priceData params af =
     (if num_le (omega params) (Fin 0) \<or> num_lt (alpha params) (Fin 0)
         \<or> num_lt (beta params) (Fin 0)
         \<or> num_ge (num_add (alpha params) (beta params)) (Fin 1)
      then Inl InvalidGARCHParameters
      else case calculateLogReturns (map price priceData) of
        Inl e \<Rightarrow> Inl e
      | Inr logReturns \<Rightarrow>
          if length logReturns < 10 then Inl NeedTenReturnsForGARCH
          else case calculateVariance logReturns of
            Inl e \<Rightarrow> Inl e
          | Inr unconditionalVariance \<Rightarrow>
              let (var, vars, residuals) =
                    garch_loop params logReturns 1 unconditionalVariance [unconditionalVariance] [];
                  d = num_mul (num_sqrt (num_mul var af)) (Fin 100)
              in (case calculateGARCHConfidence residuals vars of
                    Inl e \<Rightarrow> Inl e
                  | Inr c \<Rightarrow> Inr (d, c)))"

definition calculateDVOLIndex :: "number \<Rightarrow> number" where
  "calculateDVOLIndex d =
     (let minDVOL = Fin 10; maxDVOL = Fin 200;
          normalizedIndex = num_mul (num_div (num_sub d minDVOL) (num_sub maxDVOL minDVOL)) (Fin 100)
      in num_max (Fin 0) (num_min (Fin 100) normalizedIndex))"

text \<open>
  \<^verbatim>\<open>calculateDVOL\<close>. The result carries \<^verbatim>\<open>new Date()\<close>, the reading of the clock at the
  call; the reading is the first argument \<open>now\<close>.
\<close>

definition calculateDVOL ::
  "number \<Rightarrow> PriceData list \<Rightarrow> DVOLMethod \<Rightarrow> DVOLOptions \<Rightarrow> error + DVOLResult" where
  "calculateDVOL now priceData m options =
     (case validateInput priceData m of
        Some e \<Rightarrow> Inl e
      | None \<Rightarrow>
          let ws = (case windowSize options of None \<Rightarrow> DEFAULT_WINDOW_SIZE | Some w \<Rightarrow> w);
              lam = (case ewmaLambda options of None \<Rightarrow> DEFAULT_EWMA_LAMBDA | Some l \<Rightarrow> l);
              params = (case garchParams options of None \<Rightarrow> DEFAULT_GARCH_PARAMS | Some g \<Rightarrow> g);
              af = (case annualizationFactor options of None \<Rightarrow> ANNUALIZATION_FACTOR | Some a \<Rightarrow> a)
          in (case (case m of
                      Simple \<Rightarrow> calculateSimpleDVOL priceData ws af
                    | Ewma \<Rightarrow> calculateEWMADVOL priceData lam af
                    | Garch \<Rightarrow> calculateGARCHDVOL priceData params af) of
                Inl e \<Rightarrow> Inl e
              | Inr (d, c) \<Rightarrow>
                  Inr \<lparr> dvol = d, dvolIndex = calculateDVOLIndex d, confidence = c,
                        dvolMethod = m, dataPoints = length priceData, calculatedAt = now \<rparr>))"

section \<open>Diagnostics\<close>

text \<open>The two loops of \<^verbatim>\<open>calculateAutocorrelation\<close>.\<close>

function numerator_loop :: "number list \<Rightarrow> nat \<Rightarrow> number \<Rightarrow> nat \<Rightarrow> nat \<Rightarrow> number \<Rightarrow> number" where
  "numerator_loop returns lag mean n i numerator =
     (if i < n then
        numerator_loop returns lag mean n (i + 1)
          (num_add numerator
             (num_mul (num_sub (returns ! i) mean) (num_sub (returns ! (i + lag)) mean)))
      else numerator)"
  by pat_completeness auto
termination
  by (relation "measure (\<lambda>(returns, lag, mean, n, i, numerator). n - i)") auto

function denominator_loop :: "number list \<Rightarrow> number \<Rightarrow> nat \<Rightarrow> number \<Rightarrow> number" where
  "denominator_loop returns mean i denominator =
     (if i < length returns then
        denominator_loop returns mean (i + 1)
          (num_add denominator (num_pow (num_sub (returns ! i) mean) 2))
      else denominator)"
  by pat_completeness auto
termination
  by (relation "measure (\<lambda>(returns, mean, i, denominator). length returns - i)") auto

definition calculateAutocorrelation :: "number list \<Rightarrow> nat \<Rightarrow> error + number" where
  "calculateAutocorrelation returns lag =
     (if length returns \<le> lag then Inr (Fin 0)
      else
        let n = length returns - lag in
        case calculateMean returns of
          Inl e \<Rightarrow> Inl e
        | Inr mean \<Rightarrow>
            let numerator = numerator_loop returns lag mean n 0 (Fin 0);
                denominator = denominator_loop returns mean 0 (Fin 0)
            in Inr (if num_eq denominator (Fin 0) then Fin 0 else num_div numerator denominator))"

definition calculateHeteroskedasticity :: "number list \<Rightarrow> error + number" where
  "calculateHeteroskedasticity returns =
     (let squaredReturns = map (\<lambda>r. num_mul r r) returns
      in calculateAutocorrelation squaredReturns 1)"

definition calculateSkewness :: "number list \<Rightarrow> error + number" where
  "calculateSkewness returns =
     (case calculateMean returns of
        Inl e \<Rightarrow> Inl e
      | Inr mean \<Rightarrow>
         (case calculateStandardDeviation returns of
            Inl e \<Rightarrow> Inl e
          | Inr std \<Rightarrow>
              if num_eq std (Fin 0) then Inr (Fin 0)
              else
                let n = len returns
                in Inr (num_div
                     (foldl (\<lambda>sum r. num_add sum (num_pow (num_div (num_sub r mean) std) 3))
                        (Fin 0) returns) n)))"

definition calculateKurtosis :: "number list \<Rightarrow> error + number" where
  "calculateKurtosis returns =
     (case calculateMean returns of
        Inl e \<Rightarrow> Inl e
      | Inr mean \<Rightarrow>
         (case calculateStandardDeviation returns of
            Inl e \<Rightarrow> Inl e
          | Inr std \<Rightarrow>
              if num_eq std (Fin 0) then Inr (Fin 0)
              else
                let n = len returns
                in Inr (num_sub (num_div
                     (foldl (\<lambda>sum r. num_add sum (num_pow (num_div (num_sub r mean) std) 4))
                        (Fin 0) returns) n) (Fin 3))))"

text \<open>
  \<^verbatim>\<open>calculateDiagnostics\<close>: the fields of the object literal are evaluated in order, so the
  first that throws decides the error. The method and the options are not read.
\<close>

definition calculateDiagnostics ::
  "PriceData list \<Rightarrow> DVOLMethod \<Rightarrow> DVOLOptions \<Rightarrow> error + Diagnostics" where
  "calculateDiagnostics priceData m options =
     (case calculateLogReturns (map price priceData) of
        Inl e \<Rightarrow> Inl e
      | Inr logReturns \<Rightarrow>
         (case calculateAutocorrelation logReturns 1 of
            Inl e \<Rightarrow> Inl e
          | Inr a \<Rightarrow>
             (case calculateHeteroskedasticity logReturns of
                Inl e \<Rightarrow> Inl e
              | Inr h \<Rightarrow>
                 (case calculateSkewness logReturns of
                    Inl e \<Rightarrow> Inl e
                  | Inr s \<Rightarrow>
                     (case calculateKurtosis logReturns of
                        Inl e \<Rightarrow> Inl e
                      | Inr k \<Rightarrow>
                          Inr \<lparr> autocorrelation = a, heteroskedasticity = h,
                                skewness = s, kurtosis = k \<rparr>)))))"


text \<open>
  The autocorrelation as the specification words it: the numerator sums over the first
  \<open>n - lag\<close> indices, the denominator over all \<open>n\<close>.
\<close>

definition autocorrelation_spec :: "number list \<Rightarrow> nat \<Rightarrow> number" where
  "autocorrelation_spec rs lag =
     (let n = length rs;
          mean = num_div (reduce_sum rs) (len rs);
          numerator = reduce_sum
            (map (\<lambda>i. num_mul (num_sub (rs ! i) mean) (num_sub (rs ! (i + lag)) mean))
               [0..<n - lag]);
          denominator = reduce_sum (map (\<lambda>i. num_pow (num_sub (rs ! i) mean) 2) [0..<n])
      in if num_eq denominator (Fin 0) then Fin 0 else num_div numerator denominator)"

text \<open>The EWMA recurrence as the specification words it: the variance at step \<open>t\<close>.\<close>

fun ewma_var_spec :: "number \<Rightarrow> number list \<Rightarrow> nat \<Rightarrow> number" where
  "ewma_var_spec lam rs 0 = num_pow (rs ! 0) 2"
| "ewma_var_spec lam rs (Suc t) =
     num_add (num_mul lam (ewma_var_spec lam rs t))
       (num_mul (num_sub (Fin 1) lam) (num_pow (rs ! Suc t) 2))"

section \<open>Rounding\<close>

lemma finite_binary64: "finite binary64"
  by (simp add: binary64_def)

lemma finite_grid: "finite grid"
  by (simp add: grid_def finite_binary64)

lemma binary64_bound:
  assumes "d \<in> binary64"
  shows "\<bar>d\<bar> < 2 ^ 1024"
proof -
  obtain m e where d: "d = real_of_int m * 2 powi e"
    and m: "- (2 ^ 53 - 1) \<le> m" "m \<le> 2 ^ 53 - 1" and e: "- 1074 \<le> e" "e \<le> 971"
    using assms by (auto simp: binary64_def)
  have "\<bar>real_of_int m\<bar> \<le> 2 ^ 53 - 1"
  proof -
    have "\<bar>m\<bar> \<le> 2 ^ 53 - 1" using m by linarith
    then have "real_of_int \<bar>m\<bar> \<le> real_of_int (2 ^ 53 - 1)" by (rule of_int_le_iff [THEN iffD2])
    then show ?thesis by simp
  qed
  moreover have "(2::real) powi e \<le> 2 powi 971"
    using e by (intro power_int_increasing) simp_all
  moreover have "(0::real) \<le> 2 powi e" by simp
  ultimately have "\<bar>real_of_int m\<bar> * 2 powi e \<le> (2 ^ 53 - 1) * 2 powi 971"
    by (intro mult_mono) simp_all
  moreover have "\<bar>d\<bar> = \<bar>real_of_int m\<bar> * 2 powi e"
    by (simp add: d abs_mult)
  moreover have "((2::real) ^ 53 - 1) * 2 powi 971 < 2 ^ 53 * 2 ^ 971"
    by (simp add: power_int_def)
  moreover have "(2::real) ^ 53 * 2 ^ 971 = 2 ^ 1024"
    by (simp add: power_add [symmetric])
  ultimately show ?thesis by linarith
qed

lemma nearest_cases: "nearest x = round_down x \<or> nearest x = round_up x"
  by (simp add: nearest_def Let_def)

lemma round_down_bounds:
  assumes "a \<in> grid" and "a \<le> x"
  shows "a \<le> round_down x" and "round_down x \<le> x" and "round_down x \<in> grid"
proof -
  let ?L = "{d \<in> grid. d \<le> x}"
  have f: "finite ?L" using finite_grid by simp
  have ne: "?L \<noteq> {}" using assms by auto
  have "a \<in> ?L" using assms by simp
  then show "a \<le> round_down x" unfolding round_down_def using f by (rule Max_ge [rotated])
  have "Max ?L \<in> ?L" using f ne by (rule Max_in)
  then show "round_down x \<le> x" "round_down x \<in> grid" by (simp_all add: round_down_def)
qed

lemma round_up_bounds:
  assumes "b \<in> grid" and "x \<le> b"
  shows "round_up x \<le> b" and "x \<le> round_up x" and "round_up x \<in> grid"
proof -
  let ?U = "{d \<in> grid. x \<le> d}"
  have f: "finite ?U" using finite_grid by simp
  have ne: "?U \<noteq> {}" using assms by auto
  have "b \<in> ?U" using assms by simp
  then show "round_up x \<le> b" unfolding round_up_def using f by (rule Min_le [rotated])
  have "Min ?U \<in> ?U" using f ne by (rule Min_in)
  then show "x \<le> round_up x" "round_up x \<in> grid" by (simp_all add: round_up_def)
qed

lemma nearest_bracket:
  assumes "a \<in> grid" and "b \<in> grid" and "a \<le> x" and "x \<le> b"
  shows "a \<le> nearest x" and "nearest x \<le> b" and "nearest x \<in> grid"
proof -
  note lo = round_down_bounds [OF assms(1,3)]
  note hi = round_up_bounds [OF assms(2,4)]
  have "a \<le> round_up x" using hi(2) assms(3) by linarith
  then show "a \<le> nearest x" using nearest_cases [of x] lo(1) by auto
  have "round_down x \<le> b" using lo(2) assms(4) by linarith
  then show "nearest x \<le> b" using nearest_cases [of x] hi(1) by auto
  show "nearest x \<in> grid" using nearest_cases [of x] lo(3) hi(3) by auto
qed

lemma fl_bracket:
  assumes "a \<in> binary64" and "b \<in> binary64" and "a \<le> x" and "x \<le> b"
  shows "\<exists>r. fl x = Fin r \<and> a \<le> r \<and> r \<le> b \<and> r \<in> binary64"
proof -
  have a: "a \<in> grid" and b: "b \<in> grid" using assms(1,2) by (simp_all add: grid_def)
  note n = nearest_bracket [OF a b assms(3,4)]
  have ba: "\<bar>a\<bar> < 2 ^ 1024" and bb: "\<bar>b\<bar> < 2 ^ 1024"
    using assms(1,2) binary64_bound by blast+
  have x: "\<not> 2 ^ 1024 \<le> x" "\<not> x \<le> - (2 ^ 1024)" using ba bb assms(3,4) by linarith+
  have ne: "nearest x \<noteq> 2 ^ 1024" "nearest x \<noteq> - (2 ^ 1024)"
    using n(1,2) ba bb by linarith+
  then have "nearest x \<in> binary64" using n(3) by (simp add: grid_def)
  moreover have "fl x = Fin (nearest x)" using x ne by (simp add: fl_def Let_def)
  ultimately show ?thesis using n(1,2) by blast
qed

lemma fl_exact: "d \<in> binary64 \<Longrightarrow> fl d = Fin d"
  using fl_bracket [of d d d] by auto

lemma fl_lower:
  assumes "a \<in> binary64" and "a \<le> x"
  shows "(\<exists>r. fl x = Fin r \<and> a \<le> r) \<or> fl x = PInf"
proof (cases "2 ^ 1024 \<le> x")
  case True
  then show ?thesis by (simp add: fl_def)
next
  case False
  have a: "a \<in> grid" and b: "2 ^ 1024 \<in> grid" using assms(1) by (simp_all add: grid_def)
  have xb: "x \<le> 2 ^ 1024" using False by simp
  note n = nearest_bracket [OF a b assms(2) xb]
  have ba: "\<bar>a\<bar> < 2 ^ 1024" using assms(1) binary64_bound by blast
  have x: "\<not> x \<le> - (2 ^ 1024)" using ba assms(2) by linarith
  have ne: "nearest x \<noteq> - (2 ^ 1024)" using n(1) ba by linarith
  show ?thesis
    using False x ne n(1) by (auto simp: fl_def Let_def)
qed

lemma fl_upper:
  assumes "b \<in> binary64" and "x \<le> b"
  shows "(\<exists>r. fl x = Fin r \<and> r \<le> b) \<or> fl x = NInf"
proof (cases "x \<le> - (2 ^ 1024)")
  case True
  have "\<bar>b\<bar> < 2 ^ 1024" using assms(1) binary64_bound by blast
  then have "\<not> 2 ^ 1024 \<le> x" using assms(2) by linarith
  then show ?thesis using True by (simp add: fl_def)
next
  case False
  have b: "b \<in> grid" and a: "- (2 ^ 1024) \<in> grid" using assms(1) by (simp_all add: grid_def)
  have xa: "- (2 ^ 1024) \<le> x" using False by simp
  note n = nearest_bracket [OF a b xa assms(2)]
  have bb: "\<bar>b\<bar> < 2 ^ 1024" using assms(1) binary64_bound by blast
  have x: "\<not> 2 ^ 1024 \<le> x" using bb assms(2) by linarith
  have ne: "nearest x \<noteq> 2 ^ 1024" using n(2) bb by linarith
  show ?thesis
    using False x ne n(2) by (auto simp: fl_def Let_def)
qed

lemma fl_not_NaN: "fl x \<noteq> NaN"
  by (simp add: fl_def Let_def)

lemma int_binary64: "\<bar>m\<bar> < 2 ^ 53 \<Longrightarrow> real_of_int m \<in> binary64"
  unfolding binary64_def
  by (rule image_eqI [where x = "(m, 0)"]) auto

lemma dyadic_binary64:
  "\<bar>m\<bar> < 2 ^ 53 \<Longrightarrow> k \<le> 1074 \<Longrightarrow> real_of_int m / 2 ^ k \<in> binary64"
  unfolding binary64_def
  by (rule image_eqI [where x = "(m, - int k)"])
    (auto simp: power_int_def field_simps)

lemma fl_of_int: "\<bar>m\<bar> < 2 ^ 53 \<Longrightarrow> fl (of_int m) = Fin (of_int m)"
  by (simp add: fl_exact int_binary64)

lemma fl_0 [simp]: "fl 0 = Fin 0"
  using fl_of_int [of 0] by simp

lemma fl_1 [simp]: "fl 1 = Fin 1"
  using fl_of_int [of 1] by simp

lemma fl_minus_1 [simp]: "fl (- 1) = Fin (- 1)"
  using fl_of_int [of "- 1"] by simp

lemma fl_numeral [simp]:
  "(numeral k :: int) < 2 ^ 53 \<Longrightarrow> fl (numeral k) = Fin (numeral k)"
  using fl_of_int [of "numeral k"] by simp

lemma fl_neg_numeral [simp]:
  "(numeral k :: int) < 2 ^ 53 \<Longrightarrow> fl (- numeral k) = Fin (- numeral k)"
  using fl_of_int [of "- numeral k"] by simp

section \<open>Log returns\<close>

declare logReturns_loop.simps [simp del]

lemma pos_not_le: "num_lt (Fin 0) p \<Longrightarrow> \<not> num_le p (Fin 0)"
  by (cases p) (auto simp: num_le_def)

lemma logReturns_loop_ok:
  "(\<forall>j<length ps. \<not> num_le (ps ! j) (Fin 0)) \<Longrightarrow>
   logReturns_loop ps i acc =
     Inr (acc @ map (\<lambda>k. num_log (num_div (ps ! k) (ps ! (k - 1)))) [i..<length ps])"
proof (induction ps i acc rule: logReturns_loop.induct)
  case (1 prices i returns)
  show ?case
  proof (cases "i < length prices")
    case True
    then have a: "\<not> num_le (prices ! (i - 1)) (Fin 0)" "\<not> num_le (prices ! i) (Fin 0)"
      using 1(2) by (auto simp: less_imp_diff_less)
    have "logReturns_loop prices i returns =
            logReturns_loop prices (i + 1)
              (returns @ [num_log (num_div (prices ! i) (prices ! (i - 1)))])"
      using True a by (subst logReturns_loop.simps) simp
    also have "\<dots> = Inr ((returns @ [num_log (num_div (prices ! i) (prices ! (i - 1)))]) @
        map (\<lambda>k. num_log (num_div (prices ! k) (prices ! (k - 1)))) [i + 1..<length prices])"
      using 1(1)[OF True _ 1(2)] a by simp
    finally show ?thesis using True by (simp add: upt_conv_Cons)
  next
    case False
    then show ?thesis by (subst logReturns_loop.simps) simp
  qed
qed

lemma calculateLogReturns_ok:
  assumes "2 \<le> length ps" and "\<forall>j<length ps. \<not> num_le (ps ! j) (Fin 0)"
  shows "calculateLogReturns ps =
     Inr (map (\<lambda>k. num_log (num_div (ps ! k) (ps ! (k - 1)))) [1..<length ps])"
  using assms by (simp add: calculateLogReturns_def logReturns_loop_ok)

text \<open>
  Claim C8. A sequence of fewer than two prices is refused with the error of kind
  \<open>InsufficientData\<close>. For \<open>n \<ge> 2\<close> prices, all positive, \<^verbatim>\<open>calculateLogReturns\<close> returns
  \<open>n - 1\<close> values, and the one at position \<open>i - 1\<close> is \<^verbatim>\<open>Math.log\<close> of the quotient of
  price \<open>i\<close> by price \<open>i - 1\<close>, both in the arithmetic of the machine.
\<close>

theorem C8_log_returns:
  "(length prices < 2 \<longrightarrow>
      calculateLogReturns prices = Inl NeedTwoPricePointsForReturns
      \<and> kind NeedTwoPricePointsForReturns = InsufficientData)
   \<and> (2 \<le> length prices \<and> (\<forall>p \<in> set prices. num_lt (Fin 0) p) \<longrightarrow>
        (\<exists>rs. calculateLogReturns prices = Inr rs
           \<and> length rs = length prices - 1
           \<and> (\<forall>i. 1 \<le> i \<and> i < length prices \<longrightarrow>
                 rs ! (i - 1) = num_log (num_div (prices ! i) (prices ! (i - 1))))))"
proof (intro conjI impI)
  assume "length prices < 2"
  then show "calculateLogReturns prices = Inl NeedTwoPricePointsForReturns"
    by (simp add: calculateLogReturns_def)
next
  show "kind NeedTwoPricePointsForReturns = InsufficientData" by simp
next
  assume h: "2 \<le> length prices \<and> (\<forall>p \<in> set prices. num_lt (Fin 0) p)"
  then have "\<forall>j<length prices. \<not> num_le (prices ! j) (Fin 0)"
    using pos_not_le nth_mem by blast
  with h have eq: "calculateLogReturns prices =
     Inr (map (\<lambda>k. num_log (num_div (prices ! k) (prices ! (k - 1)))) [1..<length prices])"
    by (simp add: calculateLogReturns_ok)
  show "\<exists>rs. calculateLogReturns prices = Inr rs
           \<and> length rs = length prices - 1
           \<and> (\<forall>i. 1 \<le> i \<and> i < length prices \<longrightarrow>
                 rs ! (i - 1) = num_log (num_div (prices ! i) (prices ! (i - 1))))"
    unfolding eq by (auto simp: nth_map_upt)
qed

theorem C8_log_returns_witness:
  "calculateLogReturns [Fin 3] = Inl NeedTwoPricePointsForReturns
   \<and> (\<exists>rs. calculateLogReturns [Fin 1, Fin 2, Fin 2] = Inr rs \<and> length rs = 2
        \<and> rs ! 0 = num_log (Fin 2) \<and> rs ! 1 = Fin 0)
   \<and> (\<exists>rs. calculateLogReturns [Fin (1 / 2 ^ 512), Fin (2 ^ 512)] = Inr rs \<and> length rs = 1
        \<and> rs ! 0 = PInf)"
proof -
  have a: "calculateLogReturns [Fin 3] = Inl NeedTwoPricePointsForReturns"
    using C8_log_returns [of "[Fin 3]"] by simp
  obtain rs where rs: "calculateLogReturns [Fin 1, Fin 2, Fin 2] = Inr rs" "length rs = 2"
    "\<forall>i. 1 \<le> i \<and> i < 3 \<longrightarrow>
       rs ! (i - 1) = num_log (num_div ([Fin 1, Fin 2, Fin 2] ! i) ([Fin 1, Fin 2, Fin 2] ! (i - 1)))"
    using C8_log_returns [of "[Fin 1, Fin 2, Fin 2]"] by auto
  have "rs ! 0 = num_log (Fin 2)" using rs(3)[rule_format, of 1] by simp
  moreover have "rs ! 1 = Fin 0" using rs(3)[rule_format, of 2] by simp
  ultimately have b: "\<exists>rs. calculateLogReturns [Fin 1, Fin 2, Fin 2] = Inr rs \<and> length rs = 2
        \<and> rs ! 0 = num_log (Fin 2) \<and> rs ! 1 = Fin 0"
    using rs(1,2) by blast
  obtain qs where qs: "calculateLogReturns [Fin (1 / 2 ^ 512), Fin (2 ^ 512)] = Inr qs"
    "length qs = 1"
    "\<forall>i. 1 \<le> i \<and> i < 2 \<longrightarrow>
       qs ! (i - 1) = num_log (num_div ([Fin (1 / 2 ^ 512), Fin (2 ^ 512)] ! i)
                                  ([Fin (1 / 2 ^ 512), Fin (2 ^ 512)] ! (i - 1)))"
    using C8_log_returns [of "[Fin (1 / 2 ^ 512), Fin (2 ^ 512)]"] by auto
  have "(2::real) ^ 512 * 2 ^ 512 = 2 ^ 1024" by (simp add: power_add [symmetric])
  then have "fl (2 ^ 512 * 2 ^ 512) = PInf" by (simp add: fl_def)
  then have "qs ! 0 = PInf" using qs(3)[rule_format, of 1] by simp
  with a b qs(1,2) show ?thesis by blast
qed

section \<open>Validated input\<close>

declare ewma_loop.simps [simp del] garch_loop.simps [simp del] simple_loop.simps [simp del]
  numerator_loop.simps [simp del] denominator_loop.simps [simp del]

lemmas calc_defs = calculateMean_def calculateVariance_def calculateStandardDeviation_def
  reduce_sum_def len_def num_sub_def

lemmas cmp_defs = num_le_def num_ge_def num_max_def num_min_def clamp100_def

lemma validateInput_None:
  assumes "validateInput pd m = None"
  shows "2 \<le> length pd"
    and "m = Ewma \<Longrightarrow> 5 \<le> length pd"
    and "m = Garch \<Longrightarrow> 10 \<le> length pd"
    and "\<forall>d \<in> set pd. isFinite (price d) \<and> \<not> num_le (price d) (Fin 0)"
proof -
  have a: "\<not> length pd < 2" using assms by (auto simp: validateInput_def split: if_splits)
  then show "2 \<le> length pd" by simp
  show "m = Ewma \<Longrightarrow> 5 \<le> length pd"
    using assms by (auto simp: validateInput_def Let_def split: if_splits)
  show "m = Garch \<Longrightarrow> 10 \<le> length pd"
    using assms by (auto simp: validateInput_def Let_def split: if_splits)
  have "filter (\<lambda>d. \<not> isFinite (price d) \<or> num_le (price d) (Fin 0)) pd = []"
    using assms by (auto simp: validateInput_def Let_def split: if_splits)
  then show "\<forall>d \<in> set pd. isFinite (price d) \<and> \<not> num_le (price d) (Fin 0)"
    by (auto simp: filter_empty_conv)
qed

lemma calculateLogReturns_valid:
  assumes "2 \<le> length pd" and "\<forall>d \<in> set pd. \<not> num_le (price d) (Fin 0)"
  shows "calculateLogReturns (map price pd) =
     Inr (map (\<lambda>k. num_log (num_div (price (pd ! k)) (price (pd ! (k - 1))))) [1..<length pd])"
proof -
  have "\<forall>j<length (map price pd). \<not> num_le (map price pd ! j) (Fin 0)"
    using assms(2) by simp
  then have "calculateLogReturns (map price pd) =
     Inr (map (\<lambda>k. num_log (num_div (map price pd ! k) (map price pd ! (k - 1))))
            [1..<length (map price pd)])"
    using assms(1) by (intro calculateLogReturns_ok) simp_all
  also have "map (\<lambda>k. num_log (num_div (map price pd ! k) (map price pd ! (k - 1))))
            [1..<length (map price pd)] =
     map (\<lambda>k. num_log (num_div (price (pd ! k)) (price (pd ! (k - 1))))) [1..<length pd]"
    by (auto simp: less_imp_diff_less)
  finally show ?thesis .
qed

section \<open>Diagnostics of a series of two points\<close>

text \<open>
  Claim C10. On a series of exactly two points with positive finite prices, the one log
  return makes the autocorrelation and the heteroskedasticity 0, the skewness then asks for
  the standard deviation of one value, and \<^verbatim>\<open>calculateDiagnostics\<close> fails with the error of
  \<^verbatim>\<open>calculateVariance\<close>.
\<close>

theorem C10_diagnostics_two_points:
  assumes "length pd = 2"
    and "\<forall>d \<in> set pd. isFinite (price d) \<and> num_lt (Fin 0) (price d)"
  shows "calculateDiagnostics pd m opts = Inl NeedTwoValuesForVariance
    \<and> (\<exists>r. calculateLogReturns (map price pd) = Inr [r]
          \<and> calculateAutocorrelation [r] 1 = Inr (Fin 0)
          \<and> calculateHeteroskedasticity [r] = Inr (Fin 0)
          \<and> calculateSkewness [r] = Inl NeedTwoValuesForVariance)"
proof -
  have pos: "\<forall>d \<in> set pd. \<not> num_le (price d) (Fin 0)"
    using assms(2) pos_not_le by blast
  have up: "[1..<length pd] = [1]" using assms(1) by (simp add: upt_conv_Cons)
  define r where "r = num_log (num_div (price (pd ! 1)) (price (pd ! 0)))"
  have lr: "calculateLogReturns (map price pd) = Inr [r]"
    using calculateLogReturns_valid [OF _ pos] assms(1) up by (simp add: r_def)
  have a: "calculateAutocorrelation [r] 1 = Inr (Fin 0)"
    by (simp add: calculateAutocorrelation_def)
  have h: "calculateHeteroskedasticity [r] = Inr (Fin 0)"
    by (simp add: calculateHeteroskedasticity_def calculateAutocorrelation_def)
  have s: "calculateSkewness [r] = Inl NeedTwoValuesForVariance"
    by (simp add: calculateSkewness_def calculateMean_def calculateStandardDeviation_def
        calculateVariance_def)
  have "calculateDiagnostics pd m opts = Inl NeedTwoValuesForVariance"
    using a h s by (simp add: calculateDiagnostics_def lr)
  with lr a h s show ?thesis by blast
qed

theorem C10_diagnostics_two_points_witness:
  "calculateDiagnostics [\<lparr>timestamp = Fin 0, price = Fin 100\<rparr>, \<lparr>timestamp = Fin 1, price = Fin 110\<rparr>]
     Ewma \<lparr>windowSize = None, ewmaLambda = None, garchParams = None, annualizationFactor = None\<rparr>
   = Inl NeedTwoValuesForVariance"
  using C10_diagnostics_two_points
    [of "[\<lparr>timestamp = Fin 0, price = Fin 100\<rparr>, \<lparr>timestamp = Fin 1, price = Fin 110\<rparr>]"]
  by simp

section \<open>Prices that are not finite\<close>

text \<open>
  Claim C5. \<^verbatim>\<open>calculateLogReturns\<close> tests each price with \<^verbatim>\<open>price <= 0\<close>, which is false at
  \<^verbatim>\<open>NaN\<close> and at \<^verbatim>\<open>Infinity\<close>: such prices are not refused, and neither by
  \<^verbatim>\<open>calculateMetrics\<close>, while \<^verbatim>\<open>validateInput\<close> refuses them.
\<close>

theorem C5_non_finite_price_accepted:
  "calculateLogReturns [Fin 1, NaN] = Inr [NaN]
   \<and> calculateLogReturns [Fin 1, PInf] = Inr [PInf]
   \<and> calculateMetrics
        [\<lparr>timestamp = Fin 0, price = Fin 1\<rparr>, \<lparr>timestamp = Fin 1, price = NaN\<rparr>,
         \<lparr>timestamp = Fin 2, price = Fin 1\<rparr>] ''30d''
      = Inr \<lparr>volatility = NaN, variance = NaN, annualizedVolatility = NaN\<rparr>
   \<and> validateInput
        [\<lparr>timestamp = Fin 0, price = Fin 1\<rparr>, \<lparr>timestamp = Fin 1, price = NaN\<rparr>,
         \<lparr>timestamp = Fin 2, price = Fin 1\<rparr>] Simple
      = Some PricesMustBePositiveFinite"
  by (simp add: calculateLogReturns_def logReturns_loop.simps calculateMetrics_def
      validateInput_def getPeriodsPerYear_def annualizeVolatility_def calc_defs cmp_defs Let_def)

theorem C5_non_finite_price_accepted_witness:
  "\<not> isl (calculateLogReturns [Fin 1, NaN])
   \<and> \<not> isl (calculateMetrics
        [\<lparr>timestamp = Fin 0, price = Fin 1\<rparr>, \<lparr>timestamp = Fin 1, price = NaN\<rparr>,
         \<lparr>timestamp = Fin 2, price = Fin 1\<rparr>] ''30d'')"
  using C5_non_finite_price_accepted by simp

section \<open>Autocorrelation\<close>

lemma numerator_loop_fold:
  "numerator_loop rs lag mean n i acc =
     foldl num_add acc
       (map (\<lambda>k. num_mul (num_sub (rs ! k) mean) (num_sub (rs ! (k + lag)) mean)) [i..<n])"
proof (induction rs lag mean n i acc rule: numerator_loop.induct)
  case (1 returns lag mean n i numerator)
  show ?case
  proof (cases "i < n")
    case True
    then show ?thesis
      using 1 by (subst numerator_loop.simps) (simp add: upt_conv_Cons)
  next
    case False
    then show ?thesis by (subst numerator_loop.simps) simp
  qed
qed

lemma denominator_loop_fold:
  "denominator_loop rs mean i acc =
     foldl num_add acc (map (\<lambda>k. num_pow (num_sub (rs ! k) mean) 2) [i..<length rs])"
proof (induction rs mean i acc rule: denominator_loop.induct)
  case (1 returns mean i denominator)
  show ?case
  proof (cases "i < length returns")
    case True
    then show ?thesis
      using 1 by (subst denominator_loop.simps) (simp add: upt_conv_Cons)
  next
    case False
    then show ?thesis by (subst denominator_loop.simps) simp
  qed
qed

lemma calculateAutocorrelation_spec:
  assumes "lag < length rs"
  shows "calculateAutocorrelation rs lag = Inr (autocorrelation_spec rs lag)"
  using assms
  by (auto simp: calculateAutocorrelation_def autocorrelation_spec_def calculateMean_def
      numerator_loop_fold denominator_loop_fold reduce_sum_def Let_def)

text \<open>
  Claim C9. For a series longer than the lag, \<^verbatim>\<open>calculateAutocorrelation\<close> returns the
  quotient of the sum of \<open>(r\<^sub>i - mean) (r\<^sub>i\<^sub>+\<^sub>l\<^sub>a\<^sub>g - mean)\<close> over \<open>i < n - lag\<close> by the sum of
  \<open>(r\<^sub>i - mean)\<^sup>2\<close> over all \<open>i < n\<close>, and 0 when that denominator is 0; the sums, the
  products and the quotient are those of the machine, taken in the order of the indices.
\<close>

theorem C9_autocorrelation:
  assumes "lag < length rs"
  shows "calculateAutocorrelation rs lag = Inr (autocorrelation_spec rs lag)"
  using assms by (rule calculateAutocorrelation_spec)

theorem C9_autocorrelation_witness:
  "calculateAutocorrelation [Fin 1, Fin 2, Fin 3] 1 = Inr (Fin 0)
   \<and> calculateAutocorrelation [Fin 1, Fin 3, Fin 1, Fin 3] 1 = Inr (Fin (- (3 / 4)))
   \<and> calculateAutocorrelation [Fin 5, Fin 5, Fin 5] 1 = Inr (Fin 0)"
proof -
  have q: "fl (- (3 / 4)) = Fin (- (3 / 4))"
    using fl_exact [OF dyadic_binary64 [of "- 3" 2]] by simp
  have h3: "1 < length [Fin 1, Fin 2, Fin 3]" by simp
  have a: "calculateAutocorrelation [Fin 1, Fin 2, Fin 3] 1 = Inr (Fin 0)"
    using C9_autocorrelation [OF h3]
    by (simp add: autocorrelation_spec_def reduce_sum_def len_def num_sub_def Let_def
        upt_conv_Cons)
  have h4: "1 < length [Fin 1, Fin 3, Fin 1, Fin 3]" by simp
  have b: "calculateAutocorrelation [Fin 1, Fin 3, Fin 1, Fin 3] 1 = Inr (Fin (- (3 / 4)))"
    using C9_autocorrelation [OF h4]
    by (simp add: autocorrelation_spec_def reduce_sum_def len_def num_sub_def Let_def
        upt_conv_Cons q)
  have h5: "1 < length [Fin 5, Fin 5, Fin 5]" by simp
  have c: "calculateAutocorrelation [Fin 5, Fin 5, Fin 5] 1 = Inr (Fin 0)"
    using C9_autocorrelation [OF h5]
    by (simp add: autocorrelation_spec_def reduce_sum_def len_def num_sub_def Let_def
        upt_conv_Cons)
  from a b c show ?thesis by simp
qed

section \<open>EWMA\<close>

lemma ewma_loop_spec:
  "1 \<le> i \<Longrightarrow> i \<le> length rs \<Longrightarrow> v = ewma_var_spec lam rs (i - 1) \<Longrightarrow>
   vars = map (ewma_var_spec lam rs) [0..<i] \<Longrightarrow>
   ewma_loop lam rs i v vars =
     (ewma_var_spec lam rs (length rs - 1), map (ewma_var_spec lam rs) [0..<length rs])"
proof (induction lam rs i v vars rule: ewma_loop.induct)
  case (1 lam logReturns i ewmaVariance vars)
  show ?case
  proof (cases "i < length logReturns")
    case True
    define v' where "v' = num_add (num_mul lam ewmaVariance)
                   (num_mul (num_sub (Fin 1) lam) (num_pow (logReturns ! i) 2))"
    obtain j where j: "i = Suc j" using 1(2) by (cases i) auto
    have v': "v' = ewma_var_spec lam logReturns i"
      using 1(4) by (simp add: v'_def j)
    have step: "ewma_loop lam logReturns i ewmaVariance vars =
                ewma_loop lam logReturns (i + 1) v' (vars @ [v'])"
      using True by (subst ewma_loop.simps) (simp add: v'_def Let_def)
    have "ewma_loop lam logReturns (i + 1) v' (vars @ [v']) =
      (ewma_var_spec lam logReturns (length logReturns - 1),
       map (ewma_var_spec lam logReturns) [0..<length logReturns])"
      using True 1(5) v' by (intro 1(1)[OF True v'_def]) simp_all
    with step show ?thesis by simp
  next
    case False
    then have "i = length logReturns" using 1(3) by simp
    then show ?thesis using 1(4,5) by (subst ewma_loop.simps) simp
  qed
qed

lemma ewma_variances_spec:
  assumes "1 \<le> length rs"
  shows "ewma_variances lam rs =
     (ewma_var_spec lam rs (length rs - 1), map (ewma_var_spec lam rs) [0..<length rs])"
  unfolding ewma_variances_def Let_def
  using assms by (intro ewma_loop_spec) simp_all

lemma calculateVariance_Inr:
  "2 \<le> length xs \<Longrightarrow> \<exists>v. calculateVariance xs = Inr v"
  by (auto simp: calculateVariance_def calculateMean_def Let_def)

lemma calculateStability_Inr: "\<exists>s. calculateStability xs = Inr s"
proof (cases "length xs < 2")
  case True
  then show ?thesis by (simp add: calculateStability_def)
next
  case False
  then obtain v where "calculateVariance xs = Inr v"
    using calculateVariance_Inr [of xs] by auto
  with False show ?thesis
    by (auto simp: calculateStability_def calculateStandardDeviation_def calculateMean_def Let_def)
qed

lemma lambda_in_range:
  "num_lt (Fin 0) lam \<Longrightarrow> num_lt lam (Fin 1) \<Longrightarrow>
   \<not> (num_le lam (Fin 0) \<or> num_ge lam (Fin 1))"
  by (cases lam) (auto simp: num_le_def num_ge_def)

lemma default_lambda: "\<exists>l. DEFAULT_EWMA_LAMBDA = Fin l \<and> 1 / 2 \<le> l \<and> l \<le> 31 / 32"
proof -
  have "1 / 2 \<in> binary64" "31 / 32 \<in> binary64"
    using dyadic_binary64 [of 1 1] dyadic_binary64 [of 31 5] by simp_all
  then show ?thesis
    unfolding DEFAULT_EWMA_LAMBDA_def using fl_bracket [of "1 / 2" "31 / 32" "94 / 100"] by auto
qed

text \<open>
  Claim C6. On a validated series and with \<open>lambda\<close> strictly between 0 and 1, the
  variances that \<^verbatim>\<open>calculateEWMADVOL\<close> builds start at the square of the first return, each
  next one is \<open>lambda\<close> times the previous one plus \<open>1 - lambda\<close> times the square of the
  return of its step, and the \<open>dvol\<close> returned is the square root of the last variance times
  the annualization factor, times 100.
\<close>

theorem C6_ewma_recurrence:
  assumes "validateInput pd Ewma = None"
    and "lam = (case ewmaLambda opts of None \<Rightarrow> DEFAULT_EWMA_LAMBDA | Some l \<Rightarrow> l)"
    and "num_lt (Fin 0) lam" and "num_lt lam (Fin 1)"
    and "af = (case annualizationFactor opts of None \<Rightarrow> ANNUALIZATION_FACTOR | Some a \<Rightarrow> a)"
  shows "\<exists>rs vars r.
      calculateLogReturns (map price pd) = Inr rs
    \<and> ewma_variances lam rs = (last vars, vars)
    \<and> length vars = length rs
    \<and> vars ! 0 = num_pow (rs ! 0) 2
    \<and> (\<forall>t. 1 \<le> t \<and> t < length rs \<longrightarrow>
          vars ! t = num_add (num_mul lam (vars ! (t - 1)))
                       (num_mul (num_sub (Fin 1) lam) (num_pow (rs ! t) 2)))
    \<and> calculateDVOL now pd Ewma opts = Inr r
    \<and> dvol r = num_mul (num_sqrt (num_mul (last vars) af)) (Fin 100)"
proof -
  have len: "5 \<le> length pd" and pos: "\<forall>d \<in> set pd. \<not> num_le (price d) (Fin 0)"
    using validateInput_None [OF assms(1)] by auto
  define rs where
    "rs = map (\<lambda>k. num_log (num_div (price (pd ! k)) (price (pd ! (k - 1))))) [1..<length pd]"
  have lr: "calculateLogReturns (map price pd) = Inr rs"
    unfolding rs_def using len pos by (intro calculateLogReturns_valid) simp_all
  have n: "length rs = length pd - 1" by (simp add: rs_def)
  define vars where "vars = map (ewma_var_spec lam rs) [0..<length rs]"
  have lv: "length vars = length rs" by (simp add: vars_def)
  have ne: "vars \<noteq> []" using len n by (auto simp: vars_def)
  have last: "last vars = ewma_var_spec lam rs (length rs - 1)"
    using ne lv len n by (simp add: last_conv_nth) (simp add: vars_def)
  have ev: "ewma_variances lam rs = (last vars, vars)"
    using ewma_variances_spec [of rs lam] len n last by (simp add: vars_def)
  have v0: "vars ! 0 = num_pow (rs ! 0) 2"
    using len n by (simp add: vars_def)
  have rec: "\<forall>t. 1 \<le> t \<and> t < length rs \<longrightarrow>
          vars ! t = num_add (num_mul lam (vars ! (t - 1)))
                       (num_mul (num_sub (Fin 1) lam) (num_pow (rs ! t) 2))"
  proof (intro allI impI)
    fix t assume t: "1 \<le> t \<and> t < length rs"
    then obtain j where j: "t = Suc j" by (cases t) auto
    with t show "vars ! t = num_add (num_mul lam (vars ! (t - 1)))
                       (num_mul (num_sub (Fin 1) lam) (num_pow (rs ! t) 2))"
      by (simp add: vars_def)
  qed
  obtain s where s: "calculateStability (slice vars (- int (min 10 (length vars))) (int (length vars))) = Inr s"
    using calculateStability_Inr by blast
  have e: "calculateEWMADVOL pd lam af =
      Inr (num_mul (num_sqrt (num_mul (last vars) af)) (Fin 100), clamp100 s)"
    using lambda_in_range [OF assms(3,4)] len n s
    by (simp add: calculateEWMADVOL_def lr ev Let_def)
  have "calculateDVOL now pd Ewma opts =
      Inr \<lparr>dvol = num_mul (num_sqrt (num_mul (last vars) af)) (Fin 100),
           dvolIndex = calculateDVOLIndex (num_mul (num_sqrt (num_mul (last vars) af)) (Fin 100)),
           confidence = clamp100 s, dvolMethod = Ewma, dataPoints = length pd,
           calculatedAt = now\<rparr>"
    using e assms(1) by (simp add: calculateDVOL_def Let_def assms(2)[symmetric] assms(5)[symmetric])
  with lr ev lv v0 rec show ?thesis by auto
qed


theorem C6_ewma_recurrence_witness:
  "\<exists>rs vars r.
      calculateLogReturns (map price
        [\<lparr>timestamp = Fin 0, price = Fin 1\<rparr>, \<lparr>timestamp = Fin 1, price = Fin 2\<rparr>,
         \<lparr>timestamp = Fin 2, price = Fin 4\<rparr>, \<lparr>timestamp = Fin 3, price = Fin 2\<rparr>,
         \<lparr>timestamp = Fin 4, price = Fin 2\<rparr>]) = Inr rs
    \<and> rs = [num_log (Fin 2), num_log (Fin 2), num_log (Fin (1 / 2)), Fin 0]
    \<and> ewma_variances DEFAULT_EWMA_LAMBDA rs = (last vars, vars)
    \<and> length vars = 4
    \<and> vars ! 0 = num_pow (num_log (Fin 2)) 2
    \<and> vars ! 1 = num_add (num_mul DEFAULT_EWMA_LAMBDA (vars ! 0))
                   (num_mul (num_sub (Fin 1) DEFAULT_EWMA_LAMBDA) (num_pow (num_log (Fin 2)) 2))
    \<and> calculateDVOL (Fin 0)
        [\<lparr>timestamp = Fin 0, price = Fin 1\<rparr>, \<lparr>timestamp = Fin 1, price = Fin 2\<rparr>,
         \<lparr>timestamp = Fin 2, price = Fin 4\<rparr>, \<lparr>timestamp = Fin 3, price = Fin 2\<rparr>,
         \<lparr>timestamp = Fin 4, price = Fin 2\<rparr>] Ewma
        \<lparr>windowSize = None, ewmaLambda = None, garchParams = None, annualizationFactor = None\<rparr>
        = Inr r
    \<and> dvol r = num_mul (num_sqrt (num_mul (last vars) (Fin 365))) (Fin 100)"
proof -
  let ?pd = "[\<lparr>timestamp = Fin 0, price = Fin 1\<rparr>, \<lparr>timestamp = Fin 1, price = Fin 2\<rparr>,
         \<lparr>timestamp = Fin 2, price = Fin 4\<rparr>, \<lparr>timestamp = Fin 3, price = Fin 2\<rparr>,
         \<lparr>timestamp = Fin 4, price = Fin (2::real)\<rparr>]"
  let ?opts = "\<lparr>windowSize = None, ewmaLambda = None, garchParams = None,
                annualizationFactor = None\<rparr>"
  have v: "validateInput ?pd Ewma = None"
    by (simp add: validateInput_def num_le_def Let_def)
  have l: "DEFAULT_EWMA_LAMBDA =
      (case ewmaLambda ?opts of None \<Rightarrow> DEFAULT_EWMA_LAMBDA | Some l \<Rightarrow> l)"
    by simp
  have a: "Fin 365 = (case annualizationFactor ?opts of None \<Rightarrow> ANNUALIZATION_FACTOR | Some a \<Rightarrow> a)"
    by (simp add: ANNUALIZATION_FACTOR_def)
  obtain l0 where l0: "DEFAULT_EWMA_LAMBDA = Fin l0" "1 / 2 \<le> l0" "l0 \<le> 31 / 32"
    using default_lambda by blast
  have r0: "num_lt (Fin 0) DEFAULT_EWMA_LAMBDA" and r1: "num_lt DEFAULT_EWMA_LAMBDA (Fin 1)"
    using l0(2,3) by (simp_all add: l0(1))
  have half: "fl (1 / 2) = Fin (1 / 2)"
    using fl_exact [OF dyadic_binary64 [of 1 1]] by simp
  have lr: "calculateLogReturns (map price ?pd) =
      Inr [num_log (Fin 2), num_log (Fin 2), num_log (Fin (1 / 2)), Fin 0]"
    by (simp add: calculateLogReturns_def logReturns_loop.simps num_le_def half)
  obtain rs vars r where w:
    "calculateLogReturns (map price ?pd) = Inr rs"
    "ewma_variances DEFAULT_EWMA_LAMBDA rs = (last vars, vars)"
    "length vars = length rs"
    "vars ! 0 = num_pow (rs ! 0) 2"
    "\<forall>t. 1 \<le> t \<and> t < length rs \<longrightarrow>
          vars ! t = num_add (num_mul DEFAULT_EWMA_LAMBDA (vars ! (t - 1)))
                       (num_mul (num_sub (Fin 1) DEFAULT_EWMA_LAMBDA) (num_pow (rs ! t) 2))"
    "calculateDVOL (Fin 0) ?pd Ewma ?opts = Inr r"
    "dvol r = num_mul (num_sqrt (num_mul (last vars) (Fin 365))) (Fin 100)"
    using C6_ewma_recurrence [OF v l r0 r1 a, of "Fin 0"] by blast
  have rs: "rs = [num_log (Fin 2), num_log (Fin 2), num_log (Fin (1 / 2)), Fin 0]"
    using w(1) lr by simp
  have "1 \<le> (1::nat) \<and> 1 < length rs" using rs by simp
  then have "vars ! 1 = num_add (num_mul DEFAULT_EWMA_LAMBDA (vars ! (1 - 1)))
                   (num_mul (num_sub (Fin 1) DEFAULT_EWMA_LAMBDA) (num_pow (rs ! 1) 2))"
    using w(5) by blast
  then have v1: "vars ! 1 = num_add (num_mul DEFAULT_EWMA_LAMBDA (vars ! 0))
                   (num_mul (num_sub (Fin 1) DEFAULT_EWMA_LAMBDA) (num_pow (num_log (Fin 2)) 2))"
    by (simp add: rs)
  have v0: "vars ! 0 = num_pow (num_log (Fin 2)) 2" using w(4) by (simp add: rs)
  have lv: "length vars = 4" using w(3) rs by simp
  show ?thesis
    using w(1,2,6,7) rs v0 v1 lv by blast
qed

section \<open>The rolling window\<close>

lemma slice_window:
  assumes "w \<le> i + 1" and "i < length rs"
  shows "slice rs (int i - int w + 1) (int i + 1) = take w (drop (i + 1 - w) rs)"
proof -
  have a: "slice_index (length rs) (int i - int w + 1) = i + 1 - w"
    using assms by (auto simp: slice_index_def)
  have b: "slice_index (length rs) (int i + 1) = i + 1"
    using assms by (auto simp: slice_index_def)
  have "i + 1 - (i + 1 - w) = w" using assms by simp
  then show ?thesis by (simp add: slice_def a b Let_def)
qed

lemma window_std:
  assumes "2 \<le> w" and "w \<le> i + 1" and "i < length rs"
  shows "\<exists>v. calculateVariance (take w (drop (i + 1 - w) rs)) = Inr v
     \<and> calculateStandardDeviation (take w (drop (i + 1 - w) rs)) = Inr (num_sqrt v)"
proof -
  have "length (take w (drop (i + 1 - w) rs)) = w" using assms by auto
  then obtain v where "calculateVariance (take w (drop (i + 1 - w) rs)) = Inr v"
    using calculateVariance_Inr assms(1) by metis
  then show ?thesis by (simp add: calculateStandardDeviation_def)
qed

lemma simple_loop_ok:
  assumes "2 \<le> w"
  shows "w \<le> i + 1 \<Longrightarrow>
    simple_loop rs (int w) (int i) vols =
      Inr (vols @ map (\<lambda>j. projr (calculateStandardDeviation (take w (drop (j + 1 - w) rs))))
                    [i..<length rs])"
proof (induction "length rs - i" arbitrary: i vols)
  case 0
  then have "\<not> int i < int (length rs)" by simp
  moreover have "[i..<length rs] = []" using 0 by simp
  ultimately show ?case by (subst simple_loop.simps) simp
next
  case (Suc k)
  then have lt: "i < length rs" by simp
  obtain v where v: "calculateVariance (take w (drop (i + 1 - w) rs)) = Inr v"
    "calculateStandardDeviation (take w (drop (i + 1 - w) rs)) = Inr (num_sqrt v)"
    using window_std [OF assms Suc(3) lt] by blast
  have step: "simple_loop rs (int w) (int i) vols =
      simple_loop rs (int w) (int (i + 1)) (vols @ [num_sqrt v])"
    using lt v(1) slice_window [OF Suc(3) lt]
    by (subst simple_loop.simps) (simp add: add.commute)
  have "k = length rs - (i + 1)" using Suc(2) by simp
  then have "simple_loop rs (int w) (int (i + 1)) (vols @ [num_sqrt v]) =
      Inr ((vols @ [num_sqrt v]) @
           map (\<lambda>j. projr (calculateStandardDeviation (take w (drop (j + 1 - w) rs))))
             [i + 1..<length rs])"
    using Suc(3) by (intro Suc(1)) simp_all
  with step v(2) lt show ?case by (simp add: upt_conv_Cons)
qed

lemma calculateMean_Inr:
  "xs \<noteq> [] \<Longrightarrow> calculateMean xs = Inr (num_div (reduce_sum xs) (len xs))"
  by (simp add: calculateMean_def)

lemma calculateStandardDeviation_Inr:
  "2 \<le> length xs \<Longrightarrow> \<exists>s. calculateStandardDeviation xs = Inr s"
  using calculateVariance_Inr [of xs] by (auto simp: calculateStandardDeviation_def)

text \<open>
  Claim C7, as the code has it. On a validated series and with an integer window size
  \<open>ws \<ge> 2\<close>: the simple method fails with the error of kind \<open>InsufficientData\<close> of the
  window test when there are fewer than \<open>ws\<close> returns; with at least \<open>ws\<close> returns the loop
  collects \<open>len(returns) - ws + 1\<close> volatilities, the one of window end index \<open>i\<close> being the
  sample standard deviation of the \<open>ws\<close> returns ending at \<open>i\<close>; and with more than \<open>ws\<close>
  returns the call succeeds with \<open>dvol = mean(vols) * sqrt(annualizationFactor) * 100\<close>.
\<close>

theorem C7_simple_rolling_window:
  assumes "validateInput pd Simple = None"
    and "ws = (case windowSize opts of None \<Rightarrow> DEFAULT_WINDOW_SIZE | Some w \<Rightarrow> w)"
    and "2 \<le> ws"
    and "af = (case annualizationFactor opts of None \<Rightarrow> ANNUALIZATION_FACTOR | Some a \<Rightarrow> a)"
  shows "\<exists>rs. calculateLogReturns (map price pd) = Inr rs
    \<and> (int (length rs) < ws \<longrightarrow>
          calculateDVOL now pd Simple opts = Inl InsufficientDataForWindow
          \<and> kind InsufficientDataForWindow = InsufficientData)
    \<and> (ws \<le> int (length rs) \<longrightarrow>
          (\<exists>vols. simple_loop rs ws (ws - 1) [] = Inr vols
             \<and> length vols = length rs - nat ws + 1
             \<and> (\<forall>i. nat ws - 1 \<le> i \<and> i < length rs \<longrightarrow>
                   calculateStandardDeviation (take (nat ws) (drop (i + 1 - nat ws) rs))
                     = Inr (vols ! (i - (nat ws - 1))))
             \<and> (ws < int (length rs) \<longrightarrow>
                   (\<exists>mean r. calculateMean vols = Inr mean
                      \<and> calculateDVOL now pd Simple opts = Inr r
                      \<and> dvol r = num_mul (num_mul mean (num_sqrt af)) (Fin 100)))))"
proof -
  have len: "2 \<le> length pd" and pos: "\<forall>d \<in> set pd. \<not> num_le (price d) (Fin 0)"
    using validateInput_None [OF assms(1)] by auto
  define rs where
    "rs = map (\<lambda>k. num_log (num_div (price (pd ! k)) (price (pd ! (k - 1))))) [1..<length pd]"
  have lr: "calculateLogReturns (map price pd) = Inr rs"
    unfolding rs_def using len pos by (intro calculateLogReturns_valid) simp_all
  define w where "w = nat ws"
  have w: "ws = int w" "2 \<le> w" using assms(3) by (simp_all add: w_def)
  have opts: "(case windowSize opts of None \<Rightarrow> DEFAULT_WINDOW_SIZE | Some w \<Rightarrow> w) = int w"
    "(case annualizationFactor opts of None \<Rightarrow> ANNUALIZATION_FACTOR | Some a \<Rightarrow> a) = af"
    using assms(2,4) w(1) by simp_all
  have short: "calculateDVOL now pd Simple opts = Inl InsufficientDataForWindow"
    if "int (length rs) < ws"
    using that assms(1) w(1)
    by (simp add: calculateDVOL_def calculateSimpleDVOL_def lr Let_def opts)
  have long: "\<exists>vols. simple_loop rs ws (ws - 1) [] = Inr vols
             \<and> length vols = length rs - nat ws + 1
             \<and> (\<forall>i. nat ws - 1 \<le> i \<and> i < length rs \<longrightarrow>
                   calculateStandardDeviation (take (nat ws) (drop (i + 1 - nat ws) rs))
                     = Inr (vols ! (i - (nat ws - 1))))
             \<and> (ws < int (length rs) \<longrightarrow>
                   (\<exists>mean r. calculateMean vols = Inr mean
                      \<and> calculateDVOL now pd Simple opts = Inr r
                      \<and> dvol r = num_mul (num_mul mean (num_sqrt af)) (Fin 100)))"
    if ge: "ws \<le> int (length rs)"
  proof -
    define vols where
      "vols = map (\<lambda>j. projr (calculateStandardDeviation (take w (drop (j + 1 - w) rs))))
                [w - 1..<length rs]"
    have wl: "w \<le> length rs" using ge w(1) by simp
    have "int w - 1 = int (w - 1)" using w(2) by simp
    then have loop: "simple_loop rs ws (ws - 1) [] = Inr vols"
      using simple_loop_ok [OF w(2), of "w - 1" rs "[]"] w by (simp add: vols_def)
    have lv: "length vols = length rs - w + 1"
      using wl w(2) by (simp add: vols_def)
    have entries: "\<forall>i. w - 1 \<le> i \<and> i < length rs \<longrightarrow>
        calculateStandardDeviation (take w (drop (i + 1 - w) rs)) = Inr (vols ! (i - (w - 1)))"
    proof (intro allI impI)
      fix i assume i: "w - 1 \<le> i \<and> i < length rs"
      then have "w \<le> i + 1" by linarith
      then obtain v where "calculateStandardDeviation (take w (drop (i + 1 - w) rs)) = Inr v"
        using window_std [OF w(2) _ conjunct2 [OF i]] by blast
      moreover have "i - (w - 1) < length rs - (w - 1)" "w - 1 + (i - (w - 1)) = i"
        using i by linarith+
      then have "vols ! (i - (w - 1)) =
          projr (calculateStandardDeviation (take w (drop (i + 1 - w) rs)))"
        unfolding vols_def by (subst nth_map_upt) simp_all
      ultimately show "calculateStandardDeviation (take w (drop (i + 1 - w) rs))
          = Inr (vols ! (i - (w - 1)))" by simp
    qed
    have ok: "\<exists>mean r. calculateMean vols = Inr mean
                      \<and> calculateDVOL now pd Simple opts = Inr r
                      \<and> dvol r = num_mul (num_mul mean (num_sqrt af)) (Fin 100)"
      if gt: "ws < int (length rs)"
    proof -
      have l2: "2 \<le> length vols" using gt w(1) lv by simp
      then have ne: "vols \<noteq> []" by auto
      obtain s where s: "calculateStandardDeviation vols = Inr s"
        using calculateStandardDeviation_Inr [OF l2] by blast
      have "\<not> int (length rs) < int w" using gt w(1) by simp
      then have "calculateSimpleDVOL pd (int w) af =
          Inr (num_mul (num_mul (num_div (reduce_sum vols) (len vols)) (num_sqrt af)) (Fin 100),
               clamp100 (num_sub (Fin 100)
                 (num_mul (num_div s (num_div (reduce_sum vols) (len vols))) (Fin 100))))"
        using loop s w(1)
        by (simp add: calculateSimpleDVOL_def lr calculateMean_Inr [OF ne] Let_def)
      then show ?thesis
        using assms(1) calculateMean_Inr [OF ne]
        by (simp add: calculateDVOL_def Let_def opts)
    qed
    have nw: "nat ws = w" by (simp add: w_def)
    show ?thesis
      unfolding nw using loop lv entries ok by blast
  qed
  have "kind InsufficientDataForWindow = InsufficientData" by simp
  then show ?thesis using lr short long by blast
qed


theorem C7_simple_rolling_window_witness:
  "(\<exists>rs vols mean r.
      calculateLogReturns (map price
        [\<lparr>timestamp = Fin 0, price = Fin 1\<rparr>, \<lparr>timestamp = Fin 1, price = Fin 2\<rparr>,
         \<lparr>timestamp = Fin 2, price = Fin 4\<rparr>, \<lparr>timestamp = Fin 3, price = Fin 4\<rparr>]) = Inr rs
    \<and> rs = [num_log (Fin 2), num_log (Fin 2), Fin 0]
    \<and> simple_loop rs 2 1 [] = Inr vols
    \<and> length vols = 2
    \<and> calculateStandardDeviation [num_log (Fin 2), Fin 0] = Inr (vols ! 1)
    \<and> calculateMean vols = Inr mean
    \<and> calculateDVOL (Fin 0)
        [\<lparr>timestamp = Fin 0, price = Fin 1\<rparr>, \<lparr>timestamp = Fin 1, price = Fin 2\<rparr>,
         \<lparr>timestamp = Fin 2, price = Fin 4\<rparr>, \<lparr>timestamp = Fin 3, price = Fin 4\<rparr>] Simple
        \<lparr>windowSize = Some 2, ewmaLambda = None, garchParams = None, annualizationFactor = None\<rparr>
        = Inr r
    \<and> dvol r = num_mul (num_mul mean (num_sqrt (Fin 365))) (Fin 100))
   \<and> calculateDVOL (Fin 0)
        [\<lparr>timestamp = Fin 0, price = Fin 1\<rparr>, \<lparr>timestamp = Fin 1, price = Fin 2\<rparr>,
         \<lparr>timestamp = Fin 2, price = Fin 4\<rparr>, \<lparr>timestamp = Fin 3, price = Fin 4\<rparr>] Simple
        \<lparr>windowSize = None, ewmaLambda = None, garchParams = None, annualizationFactor = None\<rparr>
        = Inl InsufficientDataForWindow"
proof -
  let ?pd = "[\<lparr>timestamp = Fin 0, price = Fin 1\<rparr>, \<lparr>timestamp = Fin 1, price = Fin 2\<rparr>,
         \<lparr>timestamp = Fin 2, price = Fin 4\<rparr>, \<lparr>timestamp = Fin 3, price = Fin (4::real)\<rparr>]"
  let ?o2 = "\<lparr>windowSize = Some 2, ewmaLambda = None, garchParams = None,
              annualizationFactor = None\<rparr>"
  let ?o30 = "\<lparr>windowSize = None, ewmaLambda = None, garchParams = None,
               annualizationFactor = None\<rparr>"
  have v: "validateInput ?pd Simple = None"
    by (simp add: validateInput_def num_le_def Let_def)
  have w2: "2 = (case windowSize ?o2 of None \<Rightarrow> DEFAULT_WINDOW_SIZE | Some w \<Rightarrow> w)" by simp
  have w30: "30 = (case windowSize ?o30 of None \<Rightarrow> DEFAULT_WINDOW_SIZE | Some w \<Rightarrow> w)"
    by (simp add: DEFAULT_WINDOW_SIZE_def)
  have a2: "Fin 365 = (case annualizationFactor ?o2 of None \<Rightarrow> ANNUALIZATION_FACTOR | Some a \<Rightarrow> a)"
    by (simp add: ANNUALIZATION_FACTOR_def)
  have a30: "Fin 365 = (case annualizationFactor ?o30 of None \<Rightarrow> ANNUALIZATION_FACTOR | Some a \<Rightarrow> a)"
    by (simp add: ANNUALIZATION_FACTOR_def)
  have lr: "calculateLogReturns (map price ?pd) = Inr [num_log (Fin 2), num_log (Fin 2), Fin 0]"
    by (simp add: calculateLogReturns_def logReturns_loop.simps num_le_def)
  have short: "calculateDVOL (Fin 0) ?pd Simple ?o30 = Inl InsufficientDataForWindow"
    using C7_simple_rolling_window [OF v w30 _ a30, of "Fin 0"] lr by auto
  obtain rs where rs: "calculateLogReturns (map price ?pd) = Inr rs"
    and long: "2 \<le> int (length rs) \<longrightarrow>
          (\<exists>vols. simple_loop rs 2 (2 - 1) [] = Inr vols
             \<and> length vols = length rs - nat 2 + 1
             \<and> (\<forall>i. nat 2 - 1 \<le> i \<and> i < length rs \<longrightarrow>
                   calculateStandardDeviation (take (nat 2) (drop (i + 1 - nat 2) rs))
                     = Inr (vols ! (i - (nat 2 - 1))))
             \<and> (2 < int (length rs) \<longrightarrow>
                   (\<exists>mean r. calculateMean vols = Inr mean
                      \<and> calculateDVOL (Fin 0) ?pd Simple ?o2 = Inr r
                      \<and> dvol r = num_mul (num_mul mean (num_sqrt (Fin 365))) (Fin 100))))"
    using C7_simple_rolling_window [OF v w2 _ a2, of "Fin 0"] by auto
  have rs': "rs = [num_log (Fin 2), num_log (Fin 2), Fin 0]" using rs lr by simp
  obtain vols mean r where vols: "simple_loop rs 2 1 [] = Inr vols" "length vols = 2"
    and e: "\<forall>i. 1 \<le> i \<and> i < 3 \<longrightarrow>
              calculateStandardDeviation (take 2 (drop (i + 1 - 2) rs)) = Inr (vols ! (i - 1))"
    and m: "calculateMean vols = Inr mean"
      "calculateDVOL (Fin 0) ?pd Simple ?o2 = Inr r"
      "dvol r = num_mul (num_mul mean (num_sqrt (Fin 365))) (Fin 100)"
    using long rs' by auto
  have "calculateStandardDeviation [num_log (Fin 2), Fin 0] = Inr (vols ! 1)"
    using e [rule_format, of 2] rs' by simp
  then show ?thesis using rs rs' vols m short by blast
qed

text \<open>
  Claim C7 as stated fails at window size 1: a series of three points has two returns, not
  fewer than the window size, and the call fails, in \<^verbatim>\<open>calculateVariance\<close> on a window of one
  return. It fails as well at window size 2, with exactly as many returns as the window
  size: the one volatility has no standard deviation.
\<close>

theorem C7_window_counterexample:
  "calculateLogReturns (map price
      [\<lparr>timestamp = Fin 0, price = Fin 1\<rparr>, \<lparr>timestamp = Fin 1, price = Fin 1\<rparr>,
       \<lparr>timestamp = Fin 2, price = Fin 1\<rparr>]) = Inr [Fin 0, Fin 0]
   \<and> calculateDVOL (Fin 0)
      [\<lparr>timestamp = Fin 0, price = Fin 1\<rparr>, \<lparr>timestamp = Fin 1, price = Fin 1\<rparr>,
       \<lparr>timestamp = Fin 2, price = Fin 1\<rparr>] Simple
      \<lparr>windowSize = Some 1, ewmaLambda = None, garchParams = None, annualizationFactor = None\<rparr>
     = Inl NeedTwoValuesForVariance
   \<and> calculateDVOL (Fin 0)
      [\<lparr>timestamp = Fin 0, price = Fin 1\<rparr>, \<lparr>timestamp = Fin 1, price = Fin 1\<rparr>,
       \<lparr>timestamp = Fin 2, price = Fin 1\<rparr>] Simple
      \<lparr>windowSize = Some 2, ewmaLambda = None, garchParams = None, annualizationFactor = None\<rparr>
     = Inl NeedTwoValuesForVariance"
  by (simp add: calculateDVOL_def validateInput_def calculateSimpleDVOL_def
      calculateLogReturns_def logReturns_loop.simps simple_loop.simps
      slice_def slice_index_def ANNUALIZATION_FACTOR_def calc_defs cmp_defs Let_def)

section \<open>Constant prices\<close>

lemma const_returns:
  assumes "\<forall>d \<in> set pd. price d = Fin c" and "0 < c" and "2 \<le> length pd"
  shows "calculateLogReturns (map price pd) = Inr (replicate (length pd - 1) (Fin 0))"
proof -
  have pos: "\<forall>d \<in> set pd. \<not> num_le (price d) (Fin 0)"
    using assms(1,2) by (auto simp: num_le_def)
  have "map (\<lambda>k. num_log (num_div (price (pd ! k)) (price (pd ! (k - 1))))) [1..<length pd]
      = map (\<lambda>k. Fin 0) [1..<length pd]"
  proof (rule map_cong [OF refl])
    fix k assume "k \<in> set [1..<length pd]"
    then have "price (pd ! k) = Fin c" "price (pd ! (k - 1)) = Fin c"
      using assms(1) by (auto simp: less_imp_diff_less)
    then show "num_log (num_div (price (pd ! k)) (price (pd ! (k - 1)))) = Fin 0"
      using assms(2) by simp
  qed
  also have "\<dots> = replicate (length pd - 1) (Fin 0)"
    by (simp add: map_replicate_const)
  finally show ?thesis
    using calculateLogReturns_valid [OF assms(3) pos] by simp
qed

lemma foldl_add_zeros: "foldl num_add (Fin 0) (replicate n (Fin 0)) = Fin 0"
  by (induction n) simp_all

lemma reduce_sum_zeros: "reduce_sum (replicate n (Fin 0)) = Fin 0"
  by (simp add: reduce_sum_def foldl_add_zeros)

lemma mean_zeros: "1 \<le> n \<Longrightarrow> calculateMean (replicate n (Fin 0)) = Inr (Fin 0)"
  by (simp add: calculateMean_def reduce_sum_zeros len_def)

lemma zero_div_count:
  assumes "2 \<le> n"
  shows "num_div (Fin 0) (num_sub (Fin (real n)) (Fin 1)) = Fin 0"
proof -
  have "1 \<in> binary64" using int_binary64 [of 1] by simp
  moreover have "1 \<le> real n + - 1" using assms by simp
  ultimately consider r where "fl (real n + - 1) = Fin r" "1 \<le> r" | "fl (real n + - 1) = PInf"
    using fl_lower by blast
  then show ?thesis by cases (simp_all add: num_sub_def)
qed

lemma variance_zeros: "2 \<le> n \<Longrightarrow> calculateVariance (replicate n (Fin 0)) = Inr (Fin 0)"
proof -
  assume n: "2 \<le> n"
  have sq: "num_pow (num_sub (Fin 0) (Fin 0)) 2 = Fin 0"
    by (simp add: num_sub_def)
  have m: "calculateMean (replicate n (Fin 0)) = Inr (Fin 0)"
    using n by (intro mean_zeros) simp
  have "\<not> length (replicate n (Fin 0 :: number)) < 2" using n by simp
  then show ?thesis
    unfolding calculateVariance_def
    using zero_div_count [OF n] by (simp add: m sq reduce_sum_zeros len_def)
qed

lemma std_zeros: "2 \<le> n \<Longrightarrow> calculateStandardDeviation (replicate n (Fin 0)) = Inr (Fin 0)"
  by (simp add: calculateStandardDeviation_def variance_zeros)

lemma stability_zeros: "2 \<le> n \<Longrightarrow> calculateStability (replicate n (Fin 0)) = Inr NaN"
  by (simp add: calculateStability_def mean_zeros std_zeros clamp100_def num_sub_def
      num_min_def num_max_def)

lemma sqrt_bracket:
  assumes "0 \<le> p" and "p \<le> 10000"
  shows "\<exists>s. num_sqrt (Fin p) = Fin s \<and> 0 \<le> s \<and> s \<le> 100"
proof -
  have "sqrt p \<le> 100" using assms by (intro real_le_lsqrt) simp_all
  moreover have "0 \<le> sqrt p" using assms(1) by simp
  moreover have "0 \<in> binary64" "100 \<in> binary64"
    using int_binary64 [of 0] int_binary64 [of 100] by simp_all
  ultimately obtain s where "fl (sqrt p) = Fin s" "0 \<le> s" "s \<le> 100"
    using fl_bracket [of 0 100 "sqrt p"] by blast
  then show ?thesis using assms(1) by simp
qed

lemma periods_bracket:
  assumes "1 \<le> x"
  shows "\<exists>p. getPeriodsPerYear period (Fin x) = Fin p \<and> 0 < p \<and> p \<le> 10000"
proof -
  have "12 \<in> binary64" using int_binary64 [of 12] by simp
  moreover have "12 \<le> x * 12" using assms by simp
  ultimately consider r where "fl (x * 12) = Fin r" "12 \<le> r" | "fl (x * 12) = PInf"
    using fl_lower by blast
  then have "\<exists>p. num_min (Fin 365) (num_mul (Fin x) (Fin 12)) = Fin p \<and> 0 < p \<and> p \<le> 10000"
    by cases (auto simp: num_min_def)
  then show ?thesis by (auto simp: getPeriodsPerYear_def)
qed

lemma metrics_zeros:
  assumes "\<forall>d \<in> set pd. price d = Fin c" and "0 < c" and "3 \<le> length pd"
  shows "calculateMetrics pd period =
     Inr \<lparr>volatility = Fin 0, variance = Fin 0, annualizedVolatility = Fin 0\<rparr>"
proof -
  define rs where "rs = replicate (length pd - 1) (Fin 0)"
  have lr: "calculateLogReturns (map price pd) = Inr rs"
    using const_returns [OF assms(1,2)] assms(3) by (simp add: rs_def)
  have var: "calculateVariance rs = Inr (Fin 0)"
    unfolding rs_def using assms(3) by (intro variance_zeros) simp
  have "1 \<le> real (length rs)" using assms(3) by (simp add: rs_def)
  then obtain p where p: "getPeriodsPerYear period (len rs) = Fin p" "0 < p" "p \<le> 10000"
    unfolding len_def using periods_bracket by blast
  obtain s where s: "num_sqrt (Fin p) = Fin s"
    using sqrt_bracket [of p] p(2,3) by auto
  have "\<not> length pd < 2" using assms(3) by simp
  then show ?thesis
    using p(2) s
    by (simp add: calculateMetrics_def lr var p(1) annualizeVolatility_def num_le_def Let_def)
qed

lemma dvol_of_zero: "num_mul (num_mul (Fin 0) (num_sqrt (Fin 365))) (Fin 100) = Fin 0"
proof -
  obtain s where "num_sqrt (Fin 365) = Fin s" using sqrt_bracket [of 365] by auto
  then show ?thesis by simp
qed

lemma simple_zeros:
  assumes "2 \<le> w" and "w < m"
    and lr: "calculateLogReturns (map price pd) = Inr (replicate m (Fin 0))"
  shows "calculateSimpleDVOL pd (int w) (Fin 365) = Inr (Fin 0, NaN)"
proof -
  have "map (\<lambda>j. projr (calculateStandardDeviation
                (take w (drop (j + 1 - w) (replicate m (Fin 0)))))) [w - 1..<m]
      = map (\<lambda>j. Fin 0) [w - 1..<m]"
  proof (rule map_cong [OF refl])
    fix j assume "j \<in> set [w - 1..<m]"
    then have "min w (m - (j + 1 - w)) = w" by auto
    then have "take w (drop (j + 1 - w) (replicate m (Fin 0))) = replicate w (Fin 0)"
      by simp
    then show "projr (calculateStandardDeviation
                (take w (drop (j + 1 - w) (replicate m (Fin 0))))) = Fin 0"
      using assms(1) by (simp add: std_zeros)
  qed
  also have "\<dots> = replicate (m - (w - 1)) (Fin 0)"
    by (simp add: map_replicate_const)
  finally have vols: "map (\<lambda>j. projr (calculateStandardDeviation
                (take w (drop (j + 1 - w) (replicate m (Fin 0)))))) [w - 1..<m]
      = replicate (m - (w - 1)) (Fin 0)" .
  have "int w - 1 = int (w - 1)" using assms(1) by simp
  then have loop: "simple_loop (replicate m (Fin 0)) (int w) (int w - 1) []
      = Inr (replicate (m - (w - 1)) (Fin 0))"
    using simple_loop_ok [OF assms(1), of "w - 1" "replicate m (Fin 0)" "[]"] assms(1) vols
    by simp
  have n2: "2 \<le> m - (w - 1)" using assms by simp
  then have n1: "1 \<le> m - (w - 1)" by simp
  show ?thesis
    using assms(2) loop mean_zeros [OF n1] std_zeros [OF n2] dvol_of_zero
    by (simp add: calculateSimpleDVOL_def lr
        clamp100_def num_sub_def num_min_def num_max_def Let_def)
qed


lemma slice_tail_replicate:
  "slice (replicate m x) (- int (min 10 m)) (int m) = replicate (min 10 m) x"
proof -
  have a: "slice_index m (- int (min 10 m)) = m - min 10 m"
    by (auto simp: slice_index_def)
  have b: "slice_index m (int m) = m" by (simp add: slice_index_def)
  have "m - (m - min 10 m) = min 10 m" by auto
  then show ?thesis by (simp add: slice_def a b Let_def)
qed

lemma ewma_var_zeros:
  assumes "0 \<le> l" and "l \<le> 1"
  shows "t < m \<Longrightarrow> ewma_var_spec (Fin l) (replicate m (Fin 0)) t = Fin 0"
proof (induction t)
  case 0
  then show ?case by simp
next
  case (Suc t)
  have "0 \<in> binary64" "1 \<in> binary64" using int_binary64 [of 0] int_binary64 [of 1] by simp_all
  then obtain r where r: "fl (1 + - l) = Fin r"
    using fl_bracket [of 0 1 "1 + - l"] assms by auto
  show ?case using Suc r by (simp add: num_sub_def)
qed

lemma ewma_zeros:
  assumes lr: "calculateLogReturns (map price pd) = Inr (replicate m (Fin 0))" and "2 \<le> m"
    and "0 < l" and "l < 1"
  shows "calculateEWMADVOL pd (Fin l) (Fin 365) = Inr (Fin 0, NaN)"
proof -
  have sp: "ewma_var_spec (Fin l) (replicate m (Fin 0)) t = Fin 0" if "t < m" for t
    using ewma_var_zeros [of l t m] assms(3,4) that by simp
  have "map (ewma_var_spec (Fin l) (replicate m (Fin 0))) [0..<m] = map (\<lambda>t. Fin 0) [0..<m]"
    by (rule map_cong [OF refl]) (simp add: sp)
  then have vars: "map (ewma_var_spec (Fin l) (replicate m (Fin 0))) [0..<m] = replicate m (Fin 0)"
    by (simp add: map_replicate_const)
  have "ewma_var_spec (Fin l) (replicate m (Fin 0)) (m - 1) = Fin 0"
    using assms(2) by (intro sp) simp
  then have ev: "ewma_variances (Fin l) (replicate m (Fin 0)) = (Fin 0, replicate m (Fin 0))"
    using ewma_variances_spec [of "replicate m (Fin 0)" "Fin l"] assms(2) vars by simp
  have st: "calculateStability (replicate (min 10 m) (Fin 0)) = Inr NaN"
    using assms(2) by (intro stability_zeros) simp
  have rng: "\<not> (num_le (Fin l) (Fin 0) \<or> num_ge (Fin l) (Fin 1))"
    using assms(3,4) by (simp add: num_le_def num_ge_def)
  have nm: "\<not> m < 2" using assms(2) by simp
  obtain s where s: "num_sqrt (Fin 0) = Fin 0" by simp
  show ?thesis
    unfolding calculateEWMADVOL_def
    using rng nm st
    by (simp add: lr ev slice_tail_replicate clamp100_def num_min_def num_max_def)
qed

lemma index_of_zero: "calculateDVOLIndex (Fin 0) = Fin 0"
proof -
  have m1: "- 1 \<in> binary64" and z: "0 \<in> binary64" and m100: "- 100 \<in> binary64"
    using int_binary64 [of "- 1"] int_binary64 [of 0] int_binary64 [of "- 100"] by simp_all
  obtain r where r: "fl (- (1 / 19)) = Fin r" "- 1 \<le> r" "r \<le> 0"
    using fl_bracket [OF m1 z, of "- (1 / 19)"] by auto
  have "- 100 \<le> r * 100" "r * 100 \<le> 0" using r(2,3) by simp_all
  then obtain q where q: "fl (r * 100) = Fin q" "- 100 \<le> q" "q \<le> 0"
    using fl_bracket [OF m100 z, of "r * 100"] by auto
  show ?thesis
    using r(1) q by (simp add: calculateDVOLIndex_def num_sub_def num_min_def num_max_def)
qed

lemma validate_const:
  assumes "\<forall>d \<in> set pd. price d = Fin c" and "0 < c" and "2 \<le> length pd"
    and "m = Ewma \<longrightarrow> 5 \<le> length pd" and "m = Garch \<longrightarrow> 10 \<le> length pd"
  shows "validateInput pd m = None"
proof -
  have "filter (\<lambda>d. \<not> isFinite (price d) \<or> num_le (price d) (Fin 0)) pd = []"
    using assms(1,2) by (auto simp: filter_empty_conv num_le_def)
  then show ?thesis
    using assms(3,4,5) by (cases m) (auto simp: validateInput_def Let_def)
qed

lemma dvol_const_simple_full:
  assumes "\<forall>d \<in> set pd. price d = Fin c" and "0 < c" and "2 \<le> w" and "w + 2 \<le> length pd"
    and "windowSize opts = (if w = 30 then None else Some (int w)) \<or> windowSize opts = Some (int w)"
    and "annualizationFactor opts = None"
  shows "calculateDVOL now pd Simple opts =
     Inr \<lparr>dvol = Fin 0, dvolIndex = Fin 0, confidence = NaN, dvolMethod = Simple,
          dataPoints = length pd, calculatedAt = now\<rparr>"
proof -
  have v: "validateInput pd Simple = None"
    using assms(3,4) by (intro validate_const [OF assms(1,2)]) simp_all
  have lr: "calculateLogReturns (map price pd) = Inr (replicate (length pd - 1) (Fin 0))"
    using const_returns [OF assms(1,2)] assms(3,4) by simp
  have lt: "w < length pd - 1" using assms(4) by linarith
  have s: "calculateSimpleDVOL pd (int w) (Fin 365) = Inr (Fin 0, NaN)"
    by (rule simple_zeros [OF assms(3) lt lr])
  have ws: "(case windowSize opts of None \<Rightarrow> DEFAULT_WINDOW_SIZE | Some w \<Rightarrow> w) = int w"
    using assms(5) by (auto simp: DEFAULT_WINDOW_SIZE_def split: if_splits)
  show ?thesis
    using s by (simp add: calculateDVOL_def v ws assms(6) ANNUALIZATION_FACTOR_def index_of_zero)
qed

lemma dvol_const_ewma_full:
  assumes "\<forall>d \<in> set pd. price d = Fin c" and "0 < c" and "5 \<le> length pd"
    and "ewmaLambda opts = None" and "annualizationFactor opts = None"
  shows "calculateDVOL now pd Ewma opts =
     Inr \<lparr>dvol = Fin 0, dvolIndex = Fin 0, confidence = NaN, dvolMethod = Ewma,
          dataPoints = length pd, calculatedAt = now\<rparr>"
proof -
  have v: "validateInput pd Ewma = None"
    using assms(3) by (intro validate_const [OF assms(1,2)]) simp_all
  have lr: "calculateLogReturns (map price pd) = Inr (replicate (length pd - 1) (Fin 0))"
    using const_returns [OF assms(1,2)] assms(3) by simp
  obtain l where l: "DEFAULT_EWMA_LAMBDA = Fin l" "1 / 2 \<le> l" "l \<le> 31 / 32"
    using default_lambda by blast
  have m: "2 \<le> length pd - 1" using assms(3) by linarith
  have "calculateEWMADVOL pd (Fin l) (Fin 365) = Inr (Fin 0, NaN)"
    using l(2,3) by (intro ewma_zeros [OF lr m]) simp_all
  then show ?thesis
    by (simp add: calculateDVOL_def v assms(4,5) l(1) ANNUALIZATION_FACTOR_def index_of_zero)
qed

lemma ewma_const5:
  "calculateDVOL now
     [\<lparr>timestamp = Fin 0, price = Fin 1\<rparr>, \<lparr>timestamp = Fin 1, price = Fin 1\<rparr>,
      \<lparr>timestamp = Fin 2, price = Fin 1\<rparr>, \<lparr>timestamp = Fin 3, price = Fin 1\<rparr>,
      \<lparr>timestamp = Fin 4, price = Fin 1\<rparr>] Ewma
     \<lparr>windowSize = None, ewmaLambda = None, garchParams = None, annualizationFactor = None\<rparr>
   = Inr \<lparr>dvol = Fin 0, dvolIndex = Fin 0, confidence = NaN, dvolMethod = Ewma,
          dataPoints = 5, calculatedAt = now\<rparr>"
  using dvol_const_ewma_full [of _ 1 _ now] by simp

lemma simple_const4:
  "calculateDVOL now
     [\<lparr>timestamp = Fin 0, price = Fin 1\<rparr>, \<lparr>timestamp = Fin 1, price = Fin 1\<rparr>,
      \<lparr>timestamp = Fin 2, price = Fin 1\<rparr>, \<lparr>timestamp = Fin 3, price = Fin 1\<rparr>] Simple
     \<lparr>windowSize = Some 2, ewmaLambda = None, garchParams = None, annualizationFactor = None\<rparr>
   = Inr \<lparr>dvol = Fin 0, dvolIndex = Fin 0, confidence = NaN, dvolMethod = Simple,
          dataPoints = 4, calculatedAt = now\<rparr>"
  using dvol_const_simple_full [of _ 1 2 _ now] by simp

section \<open>GARCH on constant prices\<close>

lemma default_garch:
  "\<exists>w a b. DEFAULT_GARCH_PARAMS = \<lparr>omega = Fin w, alpha = Fin a, beta = Fin b\<rparr>
     \<and> w \<in> binary64 \<and> 1 / 2 ^ 20 \<le> w \<and> w \<le> 1 / 2 ^ 19
     \<and> 1 / 16 \<le> a \<and> a \<le> 13 / 128 \<and> 1 / 2 \<le> b \<and> b \<le> 109 / 128"
proof -
  have d: "1 / 2 ^ 20 \<in> binary64" "1 / 2 ^ 19 \<in> binary64" "1 / 16 \<in> binary64"
    "13 / 128 \<in> binary64" "1 / 2 \<in> binary64" "109 / 128 \<in> binary64"
    using dyadic_binary64 [of 1 20] dyadic_binary64 [of 1 19] dyadic_binary64 [of 1 4]
      dyadic_binary64 [of 13 7] dyadic_binary64 [of 1 1] dyadic_binary64 [of 109 7]
    by simp_all
  obtain w where w: "fl (1 / 1000000) = Fin w" "1 / 2 ^ 20 \<le> w" "w \<le> 1 / 2 ^ 19" "w \<in> binary64"
    using fl_bracket [OF d(1,2), of "1 / 1000000"] by auto
  obtain a where a: "fl (1 / 10) = Fin a" "1 / 16 \<le> a" "a \<le> 13 / 128"
    using fl_bracket [OF d(3,4), of "1 / 10"] by auto
  obtain b where b: "fl (85 / 100) = Fin b" "1 / 2 \<le> b" "b \<le> 109 / 128"
    using fl_bracket [OF d(5,6), of "85 / 100"] by auto
  show ?thesis
    unfolding DEFAULT_GARCH_PARAMS_def using w a b by blast
qed

lemma default_garch_valid:
  "\<not> (num_le (omega DEFAULT_GARCH_PARAMS) (Fin 0)
      \<or> num_lt (alpha DEFAULT_GARCH_PARAMS) (Fin 0)
      \<or> num_lt (beta DEFAULT_GARCH_PARAMS) (Fin 0)
      \<or> num_ge (num_add (alpha DEFAULT_GARCH_PARAMS) (beta DEFAULT_GARCH_PARAMS)) (Fin 1))"
proof -
  obtain w a b where p: "DEFAULT_GARCH_PARAMS = \<lparr>omega = Fin w, alpha = Fin a, beta = Fin b\<rparr>"
    "1 / 2 ^ 20 \<le> w" "1 / 16 \<le> a" "a \<le> 13 / 128" "1 / 2 \<le> b" "b \<le> 109 / 128"
    using default_garch by blast
  have "0 \<in> binary64" "61 / 64 \<in> binary64"
    using int_binary64 [of 0] dyadic_binary64 [of 61 6] by simp_all
  moreover have "0 \<le> a + b" "a + b \<le> 61 / 64" using p(3,4,5,6) by simp_all
  ultimately obtain s where s: "fl (a + b) = Fin s" "s \<le> 61 / 64"
    using fl_bracket [of 0 "61 / 64" "a + b"] by blast
  have "(0::real) < 1 / 2 ^ 20" by simp
  then have "0 < w" using p(2) by linarith
  then show ?thesis
    using p(3,5) s by (simp add: p(1) num_le_def num_ge_def)
qed

lemma garch_loop_zeros:
  assumes "params = \<lparr>omega = Fin w, alpha = Fin a, beta = Fin b\<rparr>"
    and "w \<in> binary64" and "1 / 2 ^ 20 \<le> w" and "w \<le> 1 / 2 ^ 19"
    and "0 \<le> b" and "b \<le> 109 / 128"
  shows "1 \<le> i \<Longrightarrow> i \<le> m \<Longrightarrow> 0 \<le> v \<Longrightarrow> v \<le> 1 \<Longrightarrow> i < m \<or> 1 / 2 ^ 20 \<le> v \<Longrightarrow>
    \<exists>v' vars' res'. garch_loop params (replicate m (Fin 0)) i (Fin v) vars res
         = (Fin v', vars', res')
       \<and> 1 / 2 ^ 20 \<le> v' \<and> v' \<le> 1 \<and> length res' = length res + (m - i)"
proof (induction "m - i" arbitrary: i v vars res)
  case 0
  then have "i = m" by simp
  with 0 show ?case by (subst garch_loop.simps) simp
next
  case (Suc k)
  then have lt: "i < m" by simp
  have prev: "replicate m (Fin 0 :: number) ! (i - 1) = Fin 0"
    using lt by (simp add: less_imp_diff_less)
  have cur: "replicate m (Fin 0 :: number) ! i = Fin 0" using lt by simp
  have z: "0 \<in> binary64" and one: "1 \<in> binary64" and lo: "1 / 2 ^ 20 \<in> binary64"
    and hi: "109 / 128 \<in> binary64"
    using int_binary64 [of 0] int_binary64 [of 1] dyadic_binary64 [of 1 20]
      dyadic_binary64 [of 109 7] by simp_all
  have "0 \<le> b * v" using assms(5) Suc(5) by simp
  moreover have "b * v \<le> 109 / 128"
    using mult_mono [OF assms(6) Suc(6)] assms(5) Suc(5) by simp
  ultimately obtain u where u: "fl (b * v) = Fin u" "0 \<le> u" "u \<le> 109 / 128"
    using fl_bracket [OF z hi, of "b * v"] by blast
  have "1 / 2 ^ 20 \<le> w + u" using assms(3) u(2) by linarith
  moreover have "w + u \<le> 1" using assms(4) u(3) by simp
  ultimately obtain v' where v': "fl (w + u) = Fin v'" "1 / 2 ^ 20 \<le> v'" "v' \<le> 1"
    using fl_bracket [OF lo one, of "w + u"] by blast
  have fw: "fl w = Fin w" using assms(2) by (rule fl_exact)
  define r where "r = num_div (Fin 0) (num_sqrt (Fin v'))"
  have step: "garch_loop params (replicate m (Fin 0)) i (Fin v) vars res =
      garch_loop params (replicate m (Fin 0)) (i + 1) (Fin v') (vars @ [Fin v']) (res @ [r])"
    using lt prev cur
    by (subst garch_loop.simps) (simp add: assms(1) fw u(1) v'(1) r_def Let_def)
  have k: "k = m - (i + 1)" using Suc(2) by simp
  have "(0::real) \<le> 1 / 2 ^ 20" by simp
  then have v0: "0 \<le> v'" using v'(2) by linarith
  obtain v'' vars' res' where g:
    "garch_loop params (replicate m (Fin 0)) (i + 1) (Fin v') (vars @ [Fin v']) (res @ [r])
       = (Fin v'', vars', res')"
    "1 / 2 ^ 20 \<le> v''" "v'' \<le> 1" "length res' = length (res @ [r]) + (m - (i + 1))"
    using Suc(1) [OF k, of v' "vars @ [Fin v']" "res @ [r]"] lt v'(2,3) v0 by auto
  show ?case using step g lt by auto
qed

lemma calculateGARCHConfidence_Inr:
  assumes "2 \<le> length res"
  shows "\<exists>c. calculateGARCHConfidence res vars = Inr c"
proof -
  obtain s where s: "calculateStandardDeviation res = Inr s"
    using calculateStandardDeviation_Inr [OF assms] by blast
  obtain t where t: "calculateStability vars = Inr t"
    using calculateStability_Inr by blast
  have "res \<noteq> []" using assms by auto
  then show ?thesis
    using assms s t by (simp add: calculateGARCHConfidence_def calculateMean_Inr Let_def)
qed

lemma garch_zeros:
  assumes lr: "calculateLogReturns (map price pd) = Inr (replicate m (Fin 0))" and "10 \<le> m"
  shows "\<exists>d c. calculateGARCHDVOL pd DEFAULT_GARCH_PARAMS (Fin 365) = Inr (Fin d, c) \<and> 0 < d"
proof -
  obtain w a b where p: "DEFAULT_GARCH_PARAMS = \<lparr>omega = Fin w, alpha = Fin a, beta = Fin b\<rparr>"
    "w \<in> binary64" "1 / 2 ^ 20 \<le> w" "w \<le> 1 / 2 ^ 19" "1 / 2 \<le> b" "b \<le> 109 / 128"
    using default_garch by blast
  have var: "calculateVariance (replicate m (Fin 0)) = Inr (Fin 0)"
    using assms(2) by (intro variance_zeros) simp
  have b0: "0 \<le> b" using p(5) by simp
  obtain v' vars' res' where g:
    "garch_loop DEFAULT_GARCH_PARAMS (replicate m (Fin 0)) 1 (Fin 0) [Fin 0] []
       = (Fin v', vars', res')"
    "1 / 2 ^ 20 \<le> v'" "v' \<le> 1" "length res' = length ([] :: number list) + (m - 1)"
    using garch_loop_zeros [OF p(1,2,3,4) b0 p(6), of 1 m 0 "[Fin 0]" "[]"] assms(2)
    by auto
  have "2 \<le> length res'" using g(4) assms(2) by simp
  then obtain c where c: "calculateGARCHConfidence res' vars' = Inr c"
    using calculateGARCHConfidence_Inr by blast
  have d12: "1 / 2 ^ 12 \<in> binary64" and d365: "365 \<in> binary64" and d6: "1 / 2 ^ 6 \<in> binary64"
    and d20: "20 \<in> binary64" and d1: "1 \<in> binary64" and d2000: "2000 \<in> binary64"
    using dyadic_binary64 [of 1 12] int_binary64 [of 365] dyadic_binary64 [of 1 6]
      int_binary64 [of 20] int_binary64 [of 1] int_binary64 [of 2000] by simp_all
  have "1 / 2 ^ 12 \<le> v' * 365" using g(2) by simp
  moreover have "v' * 365 \<le> 365" using g(3) by simp
  ultimately obtain y where y: "fl (v' * 365) = Fin y" "1 / 2 ^ 12 \<le> y" "y \<le> 365"
    using fl_bracket [OF d12 d365, of "v' * 365"] by blast
  have "(0::real) \<le> 1 / 2 ^ 12" by simp
  then have y0: "0 \<le> y" using y(2) by linarith
  have "1 / 2 ^ 6 \<le> sqrt y" using y(2) by (intro real_le_rsqrt) (simp add: power2_eq_square)
  moreover have "sqrt y \<le> 20" using y(3) y0 by (intro real_le_lsqrt) simp_all
  ultimately obtain s where s: "fl (sqrt y) = Fin s" "1 / 2 ^ 6 \<le> s" "s \<le> 20"
    using fl_bracket [OF d6 d20, of "sqrt y"] by blast
  have "1 \<le> s * 100" using s(2) by simp
  moreover have "s * 100 \<le> 2000" using s(3) by simp
  ultimately obtain d where d: "fl (s * 100) = Fin d" "1 \<le> d"
    using fl_bracket [OF d1 d2000, of "s * 100"] by blast
  have nm: "\<not> m < 10" using assms(2) by simp
  have "calculateGARCHDVOL pd DEFAULT_GARCH_PARAMS (Fin 365) = Inr (Fin d, c)"
    unfolding calculateGARCHDVOL_def
    using default_garch_valid nm g(1) y0 by (simp add: lr var c y(1) s(1) d(1))
  moreover have "0 < d" using d(2) by simp
  ultimately show ?thesis by blast
qed

lemma dvol_const_simple:
  assumes "\<forall>d \<in> set pd. price d = Fin c" and "0 < c" and "32 \<le> length pd"
  shows "\<exists>r. calculateDVOL now pd Simple
      \<lparr>windowSize = None, ewmaLambda = None, garchParams = None, annualizationFactor = None\<rparr>
        = Inr r \<and> dvol r = Fin 0"
  using dvol_const_simple_full [OF assms(1,2), of 30 _ now] assms(3) by simp

lemma dvol_const_ewma:
  assumes "\<forall>d \<in> set pd. price d = Fin c" and "0 < c" and "5 \<le> length pd"
  shows "\<exists>r. calculateDVOL now pd Ewma
      \<lparr>windowSize = None, ewmaLambda = None, garchParams = None, annualizationFactor = None\<rparr>
        = Inr r \<and> dvol r = Fin 0"
  using dvol_const_ewma_full [OF assms, of _ now] by simp

lemma dvol_const_garch:
  assumes "\<forall>d \<in> set pd. price d = Fin c" and "0 < c" and "11 \<le> length pd"
  shows "\<exists>r d. calculateDVOL now pd Garch
      \<lparr>windowSize = None, ewmaLambda = None, garchParams = None, annualizationFactor = None\<rparr>
        = Inr r \<and> dvol r = Fin d \<and> 0 < d"
proof -
  have v: "validateInput pd Garch = None"
    using assms by (intro validate_const [OF assms(1,2)]) simp_all
  have lr: "calculateLogReturns (map price pd) = Inr (replicate (length pd - 1) (Fin 0))"
    using const_returns [OF assms(1,2)] assms(3) by simp
  have m: "10 \<le> length pd - 1" using assms(3) by linarith
  obtain d c' where "calculateGARCHDVOL pd DEFAULT_GARCH_PARAMS (Fin 365) = Inr (Fin d, c')"
    "0 < d"
    using garch_zeros [OF lr m] by blast
  then show ?thesis
    by (simp add: calculateDVOL_def v ANNUALIZATION_FACTOR_def Let_def)
qed

section \<open>The three methods on constant prices\<close>

text \<open>
  Claim C1, as the code has it. On a series of one constant positive price the log returns
  are all 0, their sample variance is 0 and so are the three metrics; with default options
  the \<open>dvol\<close> of the simple method (from 32 points on) and of the EWMA method (from 5 points
  on) is 0. The \<open>dvol\<close> of the GARCH method (from 11 points on) is positive: every
  conditional variance after the first is at least \<open>omega > 0\<close>, also after rounding.
\<close>

theorem C1_constant_prices:
  assumes "\<forall>d \<in> set pd. price d = Fin c" and "0 < c"
    and "opts = \<lparr>windowSize = None, ewmaLambda = None, garchParams = None,
                  annualizationFactor = None\<rparr>"
  shows "(2 \<le> length pd \<longrightarrow>
            calculateLogReturns (map price pd) = Inr (replicate (length pd - 1) (Fin 0)))
    \<and> (3 \<le> length pd \<longrightarrow>
            calculateVariance (replicate (length pd - 1) (Fin 0)) = Inr (Fin 0)
          \<and> calculateMetrics pd period =
              Inr \<lparr>volatility = Fin 0, variance = Fin 0, annualizedVolatility = Fin 0\<rparr>)
    \<and> (32 \<le> length pd \<longrightarrow>
            (\<exists>r. calculateDVOL now pd Simple opts = Inr r \<and> dvol r = Fin 0))
    \<and> (5 \<le> length pd \<longrightarrow>
            (\<exists>r. calculateDVOL now pd Ewma opts = Inr r \<and> dvol r = Fin 0))
    \<and> (11 \<le> length pd \<longrightarrow>
            (\<exists>r d. calculateDVOL now pd Garch opts = Inr r \<and> dvol r = Fin d \<and> 0 < d))"
proof (intro conjI impI)
  assume "2 \<le> length pd"
  then show "calculateLogReturns (map price pd) = Inr (replicate (length pd - 1) (Fin 0))"
    using const_returns [OF assms(1,2)] by simp
next
  assume "3 \<le> length pd"
  then show "calculateVariance (replicate (length pd - 1) (Fin 0)) = Inr (Fin 0)"
    by (intro variance_zeros) simp
next
  assume "3 \<le> length pd"
  then show "calculateMetrics pd period =
      Inr \<lparr>volatility = Fin 0, variance = Fin 0, annualizedVolatility = Fin 0\<rparr>"
    using metrics_zeros [OF assms(1,2)] by simp
next
  assume "32 \<le> length pd"
  then show "\<exists>r. calculateDVOL now pd Simple opts = Inr r \<and> dvol r = Fin 0"
    unfolding assms(3) using dvol_const_simple [OF assms(1,2)] by simp
next
  assume "5 \<le> length pd"
  then show "\<exists>r. calculateDVOL now pd Ewma opts = Inr r \<and> dvol r = Fin 0"
    unfolding assms(3) using dvol_const_ewma [OF assms(1,2)] by simp
next
  assume "11 \<le> length pd"
  then show "\<exists>r d. calculateDVOL now pd Garch opts = Inr r \<and> dvol r = Fin d \<and> 0 < d"
    unfolding assms(3) using dvol_const_garch [OF assms(1,2)] by simp
qed

theorem C1_constant_prices_witness:
  "calculateLogReturns (map price (replicate 32 \<lparr>timestamp = Fin 0, price = Fin 100\<rparr>))
     = Inr (replicate 31 (Fin 0))
   \<and> calculateMetrics (replicate 32 \<lparr>timestamp = Fin 0, price = Fin 100\<rparr>) ''30d''
     = Inr \<lparr>volatility = Fin 0, variance = Fin 0, annualizedVolatility = Fin 0\<rparr>
   \<and> (\<exists>r. calculateDVOL (Fin 0) (replicate 32 \<lparr>timestamp = Fin 0, price = Fin 100\<rparr>) Simple
          \<lparr>windowSize = None, ewmaLambda = None, garchParams = None, annualizationFactor = None\<rparr>
          = Inr r \<and> dvol r = Fin 0)
   \<and> (\<exists>r. calculateDVOL (Fin 0) (replicate 32 \<lparr>timestamp = Fin 0, price = Fin 100\<rparr>) Ewma
          \<lparr>windowSize = None, ewmaLambda = None, garchParams = None, annualizationFactor = None\<rparr>
          = Inr r \<and> dvol r = Fin 0)
   \<and> (\<exists>r d. calculateDVOL (Fin 0) (replicate 32 \<lparr>timestamp = Fin 0, price = Fin 100\<rparr>) Garch
          \<lparr>windowSize = None, ewmaLambda = None, garchParams = None, annualizationFactor = None\<rparr>
          = Inr r \<and> dvol r = Fin d \<and> 0 < d)"
proof -
  have a: "\<forall>d \<in> set (replicate 32 \<lparr>timestamp = Fin 0, price = Fin 100\<rparr>). price d = Fin 100"
    by simp
  have b: "(0::real) < 100" by simp
  show ?thesis
    using C1_constant_prices [OF a b refl, of "''30d''" "Fin 0"] by simp
qed

text \<open>
  Claim C1 as stated fails for the GARCH method: on eleven points of constant price 100 the
  call succeeds and its \<open>dvol\<close> is not 0.
\<close>

theorem C1_garch_counterexample:
  "\<not> isl (calculateDVOL (Fin 0) (replicate 11 \<lparr>timestamp = Fin 0, price = Fin 100\<rparr>) Garch
        \<lparr>windowSize = None, ewmaLambda = None, garchParams = None, annualizationFactor = None\<rparr>)
   \<and> dvol (projr (calculateDVOL (Fin 0) (replicate 11 \<lparr>timestamp = Fin 0, price = Fin 100\<rparr>)
        Garch
        \<lparr>windowSize = None, ewmaLambda = None, garchParams = None, annualizationFactor = None\<rparr>))
      \<noteq> Fin 0"
proof -
  have a: "\<forall>d \<in> set (replicate 11 \<lparr>timestamp = Fin 0, price = Fin 100\<rparr>). price d = Fin 100"
    by simp
  have b: "(0::real) < 100" by simp
  obtain r d where
    "calculateDVOL (Fin 0) (replicate 11 \<lparr>timestamp = Fin 0, price = Fin 100\<rparr>) Garch
        \<lparr>windowSize = None, ewmaLambda = None, garchParams = None, annualizationFactor = None\<rparr>
      = Inr r" "dvol r = Fin d" "0 < d"
    using dvol_const_garch [OF a b, of "Fin 0"] by auto
  then show ?thesis by simp
qed

section \<open>Confidence at a zero mean\<close>

text \<open>
  Claim C2. On constant prices the volatilities of the simple method and the variances of
  the EWMA method are all 0, so their mean is 0. Neither \<^verbatim>\<open>calculateSimpleDVOL\<close> nor
  \<^verbatim>\<open>calculateStability\<close> tests the mean before dividing by it: the quotient \<^verbatim>\<open>0/0\<close> is
  \<^verbatim>\<open>NaN\<close>, and the confidence returned is \<^verbatim>\<open>NaN\<close>, not 100.
\<close>

theorem C2_zero_mean_confidence_is_NaN:
  "calculateMean [Fin 0, Fin 0, Fin 0, Fin 0] = Inr (Fin 0)
   \<and> calculateStability [Fin 0, Fin 0, Fin 0, Fin 0] = Inr NaN
   \<and> map_sum id confidence
       (calculateDVOL (Fin 0)
          [\<lparr>timestamp = Fin 0, price = Fin 1\<rparr>, \<lparr>timestamp = Fin 1, price = Fin 1\<rparr>,
           \<lparr>timestamp = Fin 2, price = Fin 1\<rparr>, \<lparr>timestamp = Fin 3, price = Fin 1\<rparr>,
           \<lparr>timestamp = Fin 4, price = Fin 1\<rparr>] Ewma
          \<lparr>windowSize = None, ewmaLambda = None, garchParams = None, annualizationFactor = None\<rparr>)
     = Inr NaN
   \<and> map_sum id confidence
       (calculateDVOL (Fin 0)
          [\<lparr>timestamp = Fin 0, price = Fin 1\<rparr>, \<lparr>timestamp = Fin 1, price = Fin 1\<rparr>,
           \<lparr>timestamp = Fin 2, price = Fin 1\<rparr>, \<lparr>timestamp = Fin 3, price = Fin 1\<rparr>] Simple
          \<lparr>windowSize = Some 2, ewmaLambda = None, garchParams = None, annualizationFactor = None\<rparr>)
     = Inr NaN"
  by (simp add: ewma_const5 simple_const4 calculateStability_def calc_defs cmp_defs)

theorem C2_zero_mean_confidence_is_NaN_witness:
  "calculateStability [Fin 0, Fin 0, Fin 0, Fin 0] \<noteq> Inr (Fin 100)"
  using C2_zero_mean_confidence_is_NaN by simp

section \<open>The range of the confidence\<close>

text \<open>
  Claim C3. \<^verbatim>\<open>Math.max\<close> and \<^verbatim>\<open>Math.min\<close> return \<^verbatim>\<open>NaN\<close> at \<^verbatim>\<open>NaN\<close>, so the clamp to
  \<open>[0, 100]\<close> lets it through: on constant prices \<^verbatim>\<open>calculateDVOL\<close> returns a result whose
  confidence is neither at least 0 nor at most 100.
\<close>

theorem C3_confidence_out_of_range:
  "\<not> isl (calculateDVOL (Fin 0)
          [\<lparr>timestamp = Fin 0, price = Fin 1\<rparr>, \<lparr>timestamp = Fin 1, price = Fin 1\<rparr>,
           \<lparr>timestamp = Fin 2, price = Fin 1\<rparr>, \<lparr>timestamp = Fin 3, price = Fin 1\<rparr>,
           \<lparr>timestamp = Fin 4, price = Fin 1\<rparr>] Ewma
          \<lparr>windowSize = None, ewmaLambda = None, garchParams = None, annualizationFactor = None\<rparr>)
   \<and> \<not> num_le (Fin 0) (confidence (projr (calculateDVOL (Fin 0)
          [\<lparr>timestamp = Fin 0, price = Fin 1\<rparr>, \<lparr>timestamp = Fin 1, price = Fin 1\<rparr>,
           \<lparr>timestamp = Fin 2, price = Fin 1\<rparr>, \<lparr>timestamp = Fin 3, price = Fin 1\<rparr>,
           \<lparr>timestamp = Fin 4, price = Fin 1\<rparr>] Ewma
          \<lparr>windowSize = None, ewmaLambda = None, garchParams = None, annualizationFactor = None\<rparr>)))
   \<and> \<not> num_le (confidence (projr (calculateDVOL (Fin 0)
          [\<lparr>timestamp = Fin 0, price = Fin 1\<rparr>, \<lparr>timestamp = Fin 1, price = Fin 1\<rparr>,
           \<lparr>timestamp = Fin 2, price = Fin 1\<rparr>, \<lparr>timestamp = Fin 3, price = Fin 1\<rparr>,
           \<lparr>timestamp = Fin 4, price = Fin 1\<rparr>] Ewma
          \<lparr>windowSize = None, ewmaLambda = None, garchParams = None, annualizationFactor = None\<rparr>)))
        (Fin 100)
   \<and> dvolIndex (projr (calculateDVOL (Fin 0)
          [\<lparr>timestamp = Fin 0, price = Fin 1\<rparr>, \<lparr>timestamp = Fin 1, price = Fin 1\<rparr>,
           \<lparr>timestamp = Fin 2, price = Fin 1\<rparr>, \<lparr>timestamp = Fin 3, price = Fin 1\<rparr>,
           \<lparr>timestamp = Fin 4, price = Fin 1\<rparr>] Ewma
          \<lparr>windowSize = None, ewmaLambda = None, garchParams = None, annualizationFactor = None\<rparr>))
       = Fin 0"
  by (simp add: ewma_const5 num_le_def)

theorem C3_confidence_out_of_range_witness:
  "confidence (projr (calculateDVOL (Fin 0)
          [\<lparr>timestamp = Fin 0, price = Fin 1\<rparr>, \<lparr>timestamp = Fin 1, price = Fin 1\<rparr>,
           \<lparr>timestamp = Fin 2, price = Fin 1\<rparr>, \<lparr>timestamp = Fin 3, price = Fin 1\<rparr>,
           \<lparr>timestamp = Fin 4, price = Fin 1\<rparr>] Ewma
          \<lparr>windowSize = None, ewmaLambda = None, garchParams = None, annualizationFactor = None\<rparr>))
     \<noteq> Fin 50"
  using C3_confidence_out_of_range by (auto simp: num_le_def)

end
